theory Spec2Isabelle
  imports Complex_Main "HOL-Library.Sublist" "HOL-Library.Log_Nat"
begin

section \<open>Python values, exceptions and the environment\<close>

text \<open>
  The four scripts (\<^verbatim>\<open>astock.py\<close>, \<^verbatim>\<open>astock_service.py\<close>, \<^verbatim>\<open>akshare_service.py\<close> and
  \<^verbatim>\<open>data_query.py\<close>) move dynamically typed values between an upstream and a JSON
  payload. A value is what \<^verbatim>\<open>json.loads\<close> can return or a data-frame cell can hold.
  Strings are byte lists: a text outside ASCII is written as its UTF-8 bytes. A finite
  float is the rational it denotes, with \<open>VNegZero\<close> for the negative zero; \<open>VNaN\<close> is
  the float that is not a number, which the data library puts where a number is
  missing, and \<open>VInf True\<close> and \<open>VInf False\<close> are the positive and the negative infinity.
  A dict is an association list read with \<open>map_of\<close>.
\<close>

datatype pyval =
    VNone
  | VBool bool
  | VInt int
  | VFloat rat
  | VNegZero
  | VNaN
  | VInf bool
  | VStr string
  | VList "pyval list"
  | VDict "(string \<times> pyval) list"

text \<open>
  An exception is kept as the text that \<^verbatim>\<open>str(e)\<close> gives. The exceptions of the model
  are those that the library calls and the operations on values raise; all of them
  derive from \<^verbatim>\<open>Exception\<close>, so \<^verbatim>\<open>except:\<close> and \<^verbatim>\<open>except Exception:\<close> catch the same.
\<close>

datatype exc = Exc string

fun str_exc :: "exc \<Rightarrow> string" where
  "str_exc (Exc m) = m"

text \<open>Sequencing of computations that may raise, and \<^verbatim>\<open>try: ... except: ...\<close>.\<close>

fun and_then :: "exc + 'a \<Rightarrow> ('a \<Rightarrow> exc + 'b) \<Rightarrow> exc + 'b" where
  "and_then (Inl e) f = Inl e"
| "and_then (Inr x) f = f x"

fun try_except :: "exc + 'a \<Rightarrow> (exc \<Rightarrow> exc + 'a) \<Rightarrow> exc + 'a" where
  "try_except (Inl e) h = h e"
| "try_except (Inr x) h = Inr x"

text \<open>
  A \<^verbatim>\<open>for\<close> loop that appends one record per item; an exception in the body leaves
  the loop.
\<close>

fun for_each :: "('a \<Rightarrow> exc + 'b) \<Rightarrow> 'a list \<Rightarrow> exc + 'b list" where
  "for_each f [] = Inr []"
| "for_each f (x # xs) =
     and_then (f x) (\<lambda>y. and_then (for_each f xs) (\<lambda>ys. Inr (y # ys)))"

text \<open>Truth value of a value, as \<^verbatim>\<open>if v\<close> and \<^verbatim>\<open>if not v\<close> test it.\<close>

fun truthy :: "pyval \<Rightarrow> bool" where
  "truthy VNone = False"
| "truthy (VBool b) = b"
| "truthy (VInt i) = (i \<noteq> 0)"
| "truthy (VFloat f) = (f \<noteq> 0)"
| "truthy VNegZero = False"
| "truthy VNaN = True"
| "truthy (VInf s) = True"
| "truthy (VStr s) = (s \<noteq> [])"
| "truthy (VList xs) = (xs \<noteq> [])"
| "truthy (VDict kvs) = (kvs \<noteq> [])"

text \<open>\<^verbatim>\<open>v.get(k, d)\<close>: only a dict has the method.\<close>

fun get :: "pyval \<Rightarrow> string \<Rightarrow> pyval \<Rightarrow> exc + pyval" where
  "get (VDict kvs) k d = Inr (case map_of kvs k of Some v \<Rightarrow> v | None \<Rightarrow> d)"
| "get v k d = Inl (Exc ''AttributeError'')"

text \<open>
  \<^verbatim>\<open>for item in v\<close>: a list gives its elements, a dict its keys, a string its
  characters (each a string again, on which \<^verbatim>\<open>get\<close> raises); nothing else is iterable.
\<close>

fun iter :: "pyval \<Rightarrow> exc + pyval list" where
  "iter (VList xs) = Inr xs"
| "iter (VDict kvs) = Inr (map (\<lambda>kv. VStr (fst kv)) kvs)"
| "iter (VStr s) = Inr (map (\<lambda>c. VStr [c]) s)"
| "iter v = Inl (Exc ''TypeError'')"

text \<open>
  Floating-point rounding. \<open>floor_log2 m\<close> is the exponent \<open>e\<close> with
  \<open>2 ^ e \<le> m < 2 ^ (e + 1)\<close> for a positive \<open>m\<close>; \<open>round_double x\<close> is the double nearest
  to \<open>x\<close>, a tie going to the even significand (53 bits, the least exponent -1022, below
  which the spacing stays that of the subnormal numbers). A magnitude of
  \<open>double_overflow\<close> or more would round to \<open>2 ^ 1024\<close>, which is no double.
\<close>

definition floor_log2 :: "rat \<Rightarrow> int" where
  "floor_log2 m =
     (case quotient_of m of (p, q) \<Rightarrow>
        let d = bitlen p - bitlen q in if 2 powi d \<le> m then d else d - 1)"

definition round_half_even :: "rat \<Rightarrow> int" where
  "round_half_even k =
     (let f = \<lfloor>k\<rfloor>; d = k - of_int f
      in if d < 1 / 2 then f else if 1 / 2 < d then f + 1 else if even f then f else f + 1)"

definition round_double :: "rat \<Rightarrow> rat" where
  "round_double x =
     (if x = 0 then 0
      else let e = max (floor_log2 \<bar>x\<bar>) (- 1022); ulp = 2 powi (e - 52)
           in of_int (round_half_even (x / ulp)) * ulp)"

definition double_overflow :: rat where
  "double_overflow = 2 ^ 1024 - 2 ^ 970"

text \<open>
  The float that a floating-point operation returns for the exact result \<open>x\<close>: an
  infinity beyond the range, the negative zero for a negative result that rounds to
  zero, the nearest double otherwise.
\<close>

definition to_double :: "rat \<Rightarrow> pyval" where
  "to_double x =
     (if double_overflow \<le> \<bar>x\<bar> then VInf (0 < x)
      else if x < 0 \<and> round_double x = 0 then VNegZero
      else VFloat (round_double x))"

text \<open>
  \<^verbatim>\<open>v / 100\<close>, the only division of the scripts. An \<^verbatim>\<open>int\<close> or \<^verbatim>\<open>bool\<close> is divided
  exactly and the quotient rounded once; \<^verbatim>\<open>OverflowError\<close> is raised when it is too large
  for a float. A float is divided by the float 100.0, which yields an infinity and no
  exception when it is too large. Nothing else can be divided.
\<close>

definition int_div_100 :: "int \<Rightarrow> exc + pyval" where
  "int_div_100 a =
     (if double_overflow \<le> \<bar>of_int a / 100\<bar> then Inl (Exc ''OverflowError'')
      else Inr (to_double (of_int a / 100)))"

fun truediv_100 :: "pyval \<Rightarrow> exc + pyval" where
  "truediv_100 (VInt a) = int_div_100 a"
| "truediv_100 (VBool b) = int_div_100 (if b then 1 else 0)"
| "truediv_100 (VFloat f) = Inr (to_double (f / 100))"
| "truediv_100 VNegZero = Inr VNegZero"
| "truediv_100 VNaN = Inr VNaN"
| "truediv_100 (VInf s) = Inr (VInf s)"
| "truediv_100 v = Inl (Exc ''TypeError'')"

text \<open>
  What \<^verbatim>\<open>subprocess.run\<close> returns when the child process has ended: its exit code and
  what it wrote to standard output.
\<close>

record completed =
  returncode :: int
  stdout :: string

text \<open>
  A data frame of the data library: its column labels and its rows as they are stored,
  each row an association list from column label to cell.
\<close>

datatype dataframe = DataFrame (columns: "string list") (rows: "(string \<times> pyval) list list")

text \<open>
  Everything a script reads from outside itself.
  \<^item> \<open>now\<close>: \<^verbatim>\<open>datetime.now().isoformat()\<close>;
  \<^item> \<open>days_ago d\<close>: \<^verbatim>\<open>(datetime.now() - timedelta(days=d)).strftime("%Y%m%d")\<close>;
  \<^item> \<open>run argv timeout\<close>: \<^verbatim>\<open>subprocess.run(argv, capture_output=True, text=True)\<close>,
    with the \<^verbatim>\<open>timeout\<close> argument when one is given; it raises when the program cannot
    be started or the timeout expires;
  \<^item> \<open>ak name args\<close>: the call \<^verbatim>\<open>ak.name(...)\<close> of the data library with its keyword
    arguments;
  \<^item> \<open>series_iter df row\<close> and \<open>series_iloc df row\<close>: the \<^verbatim>\<open>Series\<close> that
    \<^verbatim>\<open>df.iterrows()\<close> and \<^verbatim>\<open>df.iloc[i]\<close> build for a stored row of \<open>df\<close>. The library
    chooses a type for the new \<^verbatim>\<open>Series\<close> and may convert cells on the way (a \<^verbatim>\<open>None\<close>
    among strings can come out as NaN), so what \<^verbatim>\<open>row.get\<close> returns is a cell of that
    \<^verbatim>\<open>Series\<close>, not the stored one;
  \<^item> \<open>loads\<close>, \<open>py_float\<close>, \<open>py_int\<close>, \<open>py_str\<close>: \<^verbatim>\<open>json.loads\<close> and the builtins
    \<^verbatim>\<open>float\<close>, \<^verbatim>\<open>int\<close> and \<^verbatim>\<open>str\<close>.
\<close>

record env =
  now :: string
  days_ago :: "nat \<Rightarrow> string"
  run :: "string list \<Rightarrow> nat option \<Rightarrow> exc + completed"
  ak :: "string \<Rightarrow> (string \<times> string) list \<Rightarrow> exc + dataframe"
  series_iter :: "dataframe \<Rightarrow> (string \<times> pyval) list \<Rightarrow> (string \<times> pyval) list"
  series_iloc :: "dataframe \<Rightarrow> (string \<times> pyval) list \<Rightarrow> (string \<times> pyval) list"
  loads :: "string \<Rightarrow> exc + pyval"
  py_float :: "pyval \<Rightarrow> exc + pyval"
  py_int :: "pyval \<Rightarrow> exc + pyval"
  py_str :: "pyval \<Rightarrow> string"

text \<open>\<^verbatim>\<open>if not data\<close> for the result of \<open>curl_get\<close>: \<^verbatim>\<open>None\<close> or the empty string.\<close>

fun no_data :: "string option \<Rightarrow> bool" where
  "no_data None = True"
| "no_data (Some s) = (s = [])"

text \<open>\<^verbatim>\<open>json.loads(data)\<close> of a result that passed the test above.\<close>

fun loads_data :: "env \<Rightarrow> string option \<Rightarrow> exc + pyval" where
  "loads_data e None = Inl (Exc ''TypeError'')"
| "loads_data e (Some s) = loads e s"

text \<open>The texts of the scripts that are not ASCII, as UTF-8 bytes.\<close>

abbreviation zh_fetch_failed :: string where
  "zh_fetch_failed \<equiv> [CHR 0xE8, CHR 0x8E, CHR 0xB7, CHR 0xE5, CHR 0x8F, CHR 0x96,
     CHR 0xE6, CHR 0x95, CHR 0xB0, CHR 0xE6, CHR 0x8D, CHR 0xAE, CHR 0xE5, CHR 0xA4,
     CHR 0xB1, CHR 0xE8, CHR 0xB4, CHR 0xA5]"

abbreviation zh_parse_failed :: string where
  "zh_parse_failed \<equiv> [CHR 0xE8, CHR 0xA7, CHR 0xA3, CHR 0xE6, CHR 0x9E, CHR 0x90,
     CHR 0xE6, CHR 0x95, CHR 0xB0, CHR 0xE6, CHR 0x8D, CHR 0xAE, CHR 0xE5, CHR 0xA4,
     CHR 0xB1, CHR 0xE8, CHR 0xB4, CHR 0xA5]"

abbreviation zh_ai :: string where
  "zh_ai \<equiv> [CHR 0xE4, CHR 0xBA, CHR 0xBA, CHR 0xE5, CHR 0xB7, CHR 0xA5, CHR 0xE6,
     CHR 0x99, CHR 0xBA, CHR 0xE8, CHR 0x83, CHR 0xBD]"

abbreviation zh_chip :: string where
  "zh_chip \<equiv> [CHR 0xE8, CHR 0x8A, CHR 0xAF, CHR 0xE7, CHR 0x89, CHR 0x87, CHR 0xE6,
     CHR 0xA6, CHR 0x82, CHR 0xE5, CHR 0xBF, CHR 0xB5]"

abbreviation zh_electronic :: string where
  "zh_electronic \<equiv> [CHR 0xE7, CHR 0x94, CHR 0xB5, CHR 0xE5, CHR 0xAD, CHR 0x90,
     CHR 0xE5, CHR 0x85, CHR 0x83, CHR 0xE4, CHR 0xBB, CHR 0xB6]"

abbreviation zh_software :: string where
  "zh_software \<equiv> [CHR 0xE8, CHR 0xBD, CHR 0xAF, CHR 0xE4, CHR 0xBB, CHR 0xB6,
     CHR 0xE6, CHR 0x9C, CHR 0x8D, CHR 0xE5, CHR 0x8A, CHR 0xA1]"

abbreviation zh_sse_index :: string where
  "zh_sse_index \<equiv> [CHR 0xE4, CHR 0xB8, CHR 0x8A, CHR 0xE8, CHR 0xAF, CHR 0x81,
     CHR 0xE6, CHR 0x8C, CHR 0x87, CHR 0xE6, CHR 0x95, CHR 0xB0]"

abbreviation zh_stock :: string where
  "zh_stock \<equiv> [CHR 0xE8, CHR 0x82, CHR 0xA1, CHR 0xE7, CHR 0xA5, CHR 0xA8]"

abbreviation zh_service_astock :: string where
  "zh_service_astock \<equiv> [CHR 0x41, CHR 0xE8, CHR 0x82, CHR 0xA1, CHR 0xE6, CHR 0x95,
     CHR 0xB0, CHR 0xE6, CHR 0x8D, CHR 0xAE, CHR 0xE6, CHR 0x9C, CHR 0x8D, CHR 0xE5,
     CHR 0x8A, CHR 0xA1]"

abbreviation zh_not_found :: string where
  "zh_not_found \<equiv> [CHR 0xE8, CHR 0x82, CHR 0xA1, CHR 0xE7, CHR 0xA5, CHR 0xA8,
     CHR 0xE6, CHR 0x9C, CHR 0xAA, CHR 0xE6, CHR 0x89, CHR 0xBE, CHR 0xE5, CHR 0x88,
     CHR 0xB0]"

abbreviation zh_service_akshare :: string where
  "zh_service_akshare \<equiv> [CHR 0x41, CHR 0x6B, CHR 0x53, CHR 0x68, CHR 0x61, CHR 0x72,
     CHR 0x65, CHR 0x20, CHR 0x41, CHR 0xE8, CHR 0x82, CHR 0xA1, CHR 0xE6, CHR 0x95,
     CHR 0xB0, CHR 0xE6, CHR 0x8D, CHR 0xAE, CHR 0xE6, CHR 0x9C, CHR 0x8D, CHR 0xE5,
     CHR 0x8A, CHR 0xA1]"

abbreviation col_code :: string where
  "col_code \<equiv> [CHR 0xE4, CHR 0xBB, CHR 0xA3, CHR 0xE7, CHR 0xA0, CHR 0x81]"

abbreviation col_name :: string where
  "col_name \<equiv> [CHR 0xE5, CHR 0x90, CHR 0x8D, CHR 0xE7, CHR 0xA7, CHR 0xB0]"

abbreviation col_price :: string where
  "col_price \<equiv> [CHR 0xE6, CHR 0x9C, CHR 0x80, CHR 0xE6, CHR 0x96, CHR 0xB0,
     CHR 0xE4, CHR 0xBB, CHR 0xB7]"

abbreviation col_change :: string where
  "col_change \<equiv> [CHR 0xE6, CHR 0xB6, CHR 0xA8, CHR 0xE8, CHR 0xB7, CHR 0x8C,
     CHR 0xE5, CHR 0xB9, CHR 0x85]"

abbreviation col_volume :: string where
  "col_volume \<equiv> [CHR 0xE6, CHR 0x88, CHR 0x90, CHR 0xE4, CHR 0xBA, CHR 0xA4,
     CHR 0xE9, CHR 0x87, CHR 0x8F]"

abbreviation col_amount :: string where
  "col_amount \<equiv> [CHR 0xE6, CHR 0x88, CHR 0x90, CHR 0xE4, CHR 0xBA, CHR 0xA4,
     CHR 0xE9, CHR 0xA2, CHR 0x9D]"

abbreviation col_amplitude :: string where
  "col_amplitude \<equiv> [CHR 0xE6, CHR 0x8C, CHR 0xAF, CHR 0xE5, CHR 0xB9, CHR 0x85]"

abbreviation col_high :: string where
  "col_high \<equiv> [CHR 0xE6, CHR 0x9C, CHR 0x80, CHR 0xE9, CHR 0xAB, CHR 0x98]"

abbreviation col_low :: string where
  "col_low \<equiv> [CHR 0xE6, CHR 0x9C, CHR 0x80, CHR 0xE4, CHR 0xBD, CHR 0x8E]"

abbreviation col_open :: string where
  "col_open \<equiv> [CHR 0xE4, CHR 0xBB, CHR 0x8A, CHR 0xE5, CHR 0xBC, CHR 0x80]"

abbreviation col_prev_close :: string where
  "col_prev_close \<equiv> [CHR 0xE6, CHR 0x98, CHR 0xA8, CHR 0xE6, CHR 0x94, CHR 0xB6]"

abbreviation col_board :: string where
  "col_board \<equiv> [CHR 0xE6, CHR 0x9D, CHR 0xBF, CHR 0xE5, CHR 0x9D, CHR 0x97,
     CHR 0xE5, CHR 0x90, CHR 0x8D, CHR 0xE7, CHR 0xA7, CHR 0xB0]"

abbreviation col_up :: string where
  "col_up \<equiv> [CHR 0xE4, CHR 0xB8, CHR 0x8A, CHR 0xE6, CHR 0xB6, CHR 0xA8]"

abbreviation col_down :: string where
  "col_down \<equiv> [CHR 0xE4, CHR 0xB8, CHR 0x8B, CHR 0xE8, CHR 0xB7, CHR 0x8C]"

abbreviation col_title :: string where
  "col_title \<equiv> [CHR 0xE6, CHR 0x96, CHR 0xB0, CHR 0xE9, CHR 0x97, CHR 0xBB,
     CHR 0xE6, CHR 0xA0, CHR 0x87, CHR 0xE9, CHR 0xA2, CHR 0x98]"

abbreviation col_time :: string where
  "col_time \<equiv> [CHR 0xE5, CHR 0x8F, CHR 0x91, CHR 0xE5, CHR 0xB8, CHR 0x83, CHR 0xE6,
     CHR 0x97, CHR 0xB6, CHR 0xE9, CHR 0x97, CHR 0xB4]"

abbreviation col_source :: string where
  "col_source \<equiv> [CHR 0xE6, CHR 0x96, CHR 0x87, CHR 0xE7, CHR 0xAB, CHR 0xA0,
     CHR 0xE6, CHR 0x9D, CHR 0xA5, CHR 0xE6, CHR 0xBA, CHR 0x90]"

abbreviation zh_failed_prefix :: string where
  "zh_failed_prefix \<equiv> [CHR 0xE8, CHR 0x8E, CHR 0xB7, CHR 0xE5, CHR 0x8F, CHR 0x96,
     CHR 0xE5, CHR 0xA4, CHR 0xB1, CHR 0xE8, CHR 0xB4, CHR 0xA5, CHR 0x3A, CHR 0x20]"

abbreviation col_date :: string where
  "col_date \<equiv> [CHR 0xE6, CHR 0x97, CHR 0xA5, CHR 0xE6, CHR 0x9C, CHR 0x9F]"

abbreviation col_kopen :: string where
  "col_kopen \<equiv> [CHR 0xE5, CHR 0xBC, CHR 0x80, CHR 0xE7, CHR 0x9B, CHR 0x98]"

abbreviation col_kclose :: string where
  "col_kclose \<equiv> [CHR 0xE6, CHR 0x94, CHR 0xB6, CHR 0xE7, CHR 0x9B, CHR 0x98]"

abbreviation col_contract :: string where
  "col_contract \<equiv> [CHR 0xE5, CHR 0x90, CHR 0x88, CHR 0xE7, CHR 0xBA, CHR 0xA6,
     CHR 0xE4, CHR 0xBB, CHR 0xA3, CHR 0xE7, CHR 0xA0, CHR 0x81]"

abbreviation col_contract_name :: string where
  "col_contract_name \<equiv> [CHR 0xE5, CHR 0x90, CHR 0x88, CHR 0xE7, CHR 0xBA, CHR 0xA6,
     CHR 0xE5, CHR 0x90, CHR 0x8D, CHR 0xE7, CHR 0xA7, CHR 0xB0]"

abbreviation col_main :: string where
  "col_main \<equiv> [CHR 0xE4, CHR 0xB8, CHR 0xBB, CHR 0xE5, CHR 0x8A, CHR 0x9B, CHR 0xE5,
     CHR 0x87, CHR 0x80, CHR 0xE6, CHR 0xB5, CHR 0x81, CHR 0xE5, CHR 0x85, CHR 0xA5]"

abbreviation col_retail :: string where
  "col_retail \<equiv> [CHR 0xE6, CHR 0x95, CHR 0xA3, CHR 0xE6, CHR 0x88, CHR 0xB7,
     CHR 0xE5, CHR 0x87, CHR 0x80, CHR 0xE6, CHR 0xB5, CHR 0x81, CHR 0xE5, CHR 0x85,
     CHR 0xA5]"

abbreviation col_xlarge :: string where
  "col_xlarge \<equiv> [CHR 0xE8, CHR 0xB6, CHR 0x85, CHR 0xE5, CHR 0xA4, CHR 0xA7,
     CHR 0xE5, CHR 0x8D, CHR 0x95, CHR 0xE5, CHR 0x87, CHR 0x80, CHR 0xE6, CHR 0xB5,
     CHR 0x81, CHR 0xE5, CHR 0x85, CHR 0xA5]"

abbreviation col_large :: string where
  "col_large \<equiv> [CHR 0xE5, CHR 0xA4, CHR 0xA7, CHR 0xE5, CHR 0x8D, CHR 0x95,
     CHR 0xE5, CHR 0x87, CHR 0x80, CHR 0xE6, CHR 0xB5, CHR 0x81, CHR 0xE5, CHR 0x85,
     CHR 0xA5]"

abbreviation col_medium :: string where
  "col_medium \<equiv> [CHR 0xE4, CHR 0xB8, CHR 0xAD, CHR 0xE5, CHR 0x8D, CHR 0x95,
     CHR 0xE5, CHR 0x87, CHR 0x80, CHR 0xE6, CHR 0xB5, CHR 0x81, CHR 0xE5, CHR 0x85,
     CHR 0xA5]"

abbreviation col_small :: string where
  "col_small \<equiv> [CHR 0xE5, CHR 0xB0, CHR 0x8F, CHR 0xE5, CHR 0x8D, CHR 0x95,
     CHR 0xE5, CHR 0x87, CHR 0x80, CHR 0xE6, CHR 0xB5, CHR 0x81, CHR 0xE5, CHR 0x85,
     CHR 0xA5]"

abbreviation col_quarter :: string where
  "col_quarter \<equiv> [CHR 0xE5, CHR 0xAD, CHR 0xA3, CHR 0xE5, CHR 0xBA, CHR 0xA6]"

abbreviation col_gdp :: string where
  "col_gdp \<equiv> [CHR 0xE5, CHR 0x9B, CHR 0xBD, CHR 0xE5, CHR 0x86, CHR 0x85, CHR 0xE7,
     CHR 0x94, CHR 0x9F, CHR 0xE4, CHR 0xBA, CHR 0xA7, CHR 0xE6, CHR 0x80, CHR 0xBB,
     CHR 0xE5, CHR 0x80, CHR 0xBC, CHR 0x28, CHR 0xE4, CHR 0xBA, CHR 0xBF, CHR 0xE5,
     CHR 0x85, CHR 0x83, CHR 0x29]"

abbreviation col_gdp_yoy :: string where
  "col_gdp_yoy \<equiv> [CHR 0xE5, CHR 0x9B, CHR 0xBD, CHR 0xE5, CHR 0x86, CHR 0x85,
     CHR 0xE7, CHR 0x94, CHR 0x9F, CHR 0xE4, CHR 0xBA, CHR 0xA7, CHR 0xE6, CHR 0x80,
     CHR 0xBB, CHR 0xE5, CHR 0x80, CHR 0xBC, CHR 0xE5, CHR 0x90, CHR 0x8C, CHR 0xE6,
     CHR 0xAF, CHR 0x94, CHR 0xE5, CHR 0xA2, CHR 0x9E, CHR 0xE9, CHR 0x95, CHR 0xBF]"

abbreviation col_month :: string where
  "col_month \<equiv> [CHR 0xE6, CHR 0x9C, CHR 0x88, CHR 0xE4, CHR 0xBB, CHR 0xBD]"

abbreviation col_cpi :: string where
  "col_cpi \<equiv> [CHR 0xE5, CHR 0x85, CHR 0xA8, CHR 0xE5, CHR 0x9B, CHR 0xBD, CHR 0xE5,
     CHR 0xB1, CHR 0x85, CHR 0xE6, CHR 0xB0, CHR 0x91, CHR 0xE6, CHR 0xB6, CHR 0x88,
     CHR 0xE8, CHR 0xB4, CHR 0xB9, CHR 0xE4, CHR 0xBB, CHR 0xB7, CHR 0xE6, CHR 0xA0,
     CHR 0xBC]"

abbreviation col_cpi_yoy :: string where
  "col_cpi_yoy \<equiv> [CHR 0xE5, CHR 0x85, CHR 0xA8, CHR 0xE5, CHR 0x9B, CHR 0xBD,
     CHR 0xE5, CHR 0xB1, CHR 0x85, CHR 0xE6, CHR 0xB0, CHR 0x91, CHR 0xE6, CHR 0xB6,
     CHR 0x88, CHR 0xE8, CHR 0xB4, CHR 0xB9, CHR 0xE4, CHR 0xBB, CHR 0xB7, CHR 0xE6,
     CHR 0xA0, CHR 0xBC, CHR 0xE5, CHR 0x90, CHR 0x8C, CHR 0xE6, CHR 0xAF, CHR 0x94,
     CHR 0xE5, CHR 0xA2, CHR 0x9E, CHR 0xE9, CHR 0x95, CHR 0xBF]"

abbreviation help_stock :: string where
  "help_stock \<equiv> [CHR 0x41, CHR 0xE8, CHR 0x82, CHR 0xA1, CHR 0xE5, CHR 0xAE,
     CHR 0x9E, CHR 0xE6, CHR 0x97, CHR 0xB6, CHR 0xE8, CHR 0xA1, CHR 0x8C, CHR 0xE6,
     CHR 0x83, CHR 0x85]"

abbreviation help_kline :: string where
  "help_kline \<equiv> [CHR 0x4B, CHR 0xE7, CHR 0xBA, CHR 0xBF, CHR 0xE6, CHR 0x95,
     CHR 0xB0, CHR 0xE6, CHR 0x8D, CHR 0xAE]"

abbreviation help_fundflow :: string where
  "help_fundflow \<equiv> [CHR 0xE8, CHR 0xB5, CHR 0x84, CHR 0xE9, CHR 0x87, CHR 0x91,
     CHR 0xE6, CHR 0xB5, CHR 0x81, CHR 0xE5, CHR 0x90, CHR 0x91]"

abbreviation help_index :: string where
  "help_index \<equiv> [CHR 0xE6, CHR 0x8C, CHR 0x87, CHR 0xE6, CHR 0x95, CHR 0xB0,
     CHR 0xE8, CHR 0xA1, CHR 0x8C, CHR 0xE6, CHR 0x83, CHR 0x85]"

abbreviation help_futures :: string where
  "help_futures \<equiv> [CHR 0xE6, CHR 0x9C, CHR 0x9F, CHR 0xE8, CHR 0xB4, CHR 0xA7,
     CHR 0xE8, CHR 0xA1, CHR 0x8C, CHR 0xE6, CHR 0x83, CHR 0x85]"

abbreviation help_etf :: string where
  "help_etf \<equiv> [CHR 0x45, CHR 0x54, CHR 0x46, CHR 0xE8, CHR 0xA1, CHR 0x8C, CHR 0xE6,
     CHR 0x83, CHR 0x85]"

abbreviation help_concept :: string where
  "help_concept \<equiv> [CHR 0xE6, CHR 0xA6, CHR 0x82, CHR 0xE5, CHR 0xBF, CHR 0xB5,
     CHR 0xE6, CHR 0x9D, CHR 0xBF, CHR 0xE5, CHR 0x9D, CHR 0x97]"

abbreviation help_industry :: string where
  "help_industry \<equiv> [CHR 0xE8, CHR 0xA1, CHR 0x8C, CHR 0xE4, CHR 0xB8, CHR 0x9A,
     CHR 0xE6, CHR 0x9D, CHR 0xBF, CHR 0xE5, CHR 0x9D, CHR 0x97]"

abbreviation help_gdp :: string where
  "help_gdp \<equiv> [CHR 0x47, CHR 0x44, CHR 0x50, CHR 0xE6, CHR 0x95, CHR 0xB0, CHR 0xE6,
     CHR 0x8D, CHR 0xAE]"

abbreviation help_cpi :: string where
  "help_cpi \<equiv> [CHR 0x43, CHR 0x50, CHR 0x49, CHR 0xE6, CHR 0x95, CHR 0xB0, CHR 0xE6,
     CHR 0x8D, CHR 0xAE]"

abbreviation help_news :: string where
  "help_news \<equiv> [CHR 0xE8, CHR 0xB4, CHR 0xA2, CHR 0xE7, CHR 0xBB, CHR 0x8F,
     CHR 0xE6, CHR 0x96, CHR 0xB0, CHR 0xE9, CHR 0x97, CHR 0xBB]"

section \<open>\<^verbatim>\<open>astock.py\<close>: the command line over the public HTTP interface\<close>

text \<open>
  \<^verbatim>\<open>curl_get\<close> of \<^verbatim>\<open>astock.py\<close>: the exit code is not looked at, whatever the child wrote
  is returned, and a bare \<^verbatim>\<open>except\<close> turns every exception into \<^verbatim>\<open>None\<close>.
\<close>

definition astock_curl_get :: "env \<Rightarrow> string \<Rightarrow> exc + string option" where
  "astock_curl_get e url =
     try_except
       (and_then (run e [''curl'', ''-s'', ''-m'', ''10'', url] None)
          (\<lambda>result. Inr (Some (stdout result))))
       (\<lambda>ex. Inr None)"

abbreviation astock_index_url :: string where
  "astock_index_url \<equiv> ''https://push2.eastmoney.com/api/qt/ulist.np/get?fltt=2&fields=f1,f2,f3,f4,f12,f13,f14,f104,f105&secids=1.000001,0.399001,0.399006,1.000300,1.000016,1.000905,0.399101,0.399102''"

definition astock_stock_url :: "string \<Rightarrow> string" where
  "astock_stock_url symbol =
     ''https://push2.eastmoney.com/api/qt/stock/get?secid=1.'' @ symbol @
     ''&fields=f43,f44,f45,f46,f47,f48,f50,f51,f52,f55,f57,f58,f59,f60,f116,f117,f162,f167,f168,f169,f170,f171,f173,f177''"

abbreviation astock_concept_url :: string where
  "astock_concept_url \<equiv> ''https://push2.eastmoney.com/api/qt/clist/get?pn=1&pz=20&po=1&np=1&ut=bd1d9ddb04089700cf9c27f6f7426281&fltt=2&invt=2&fid=f3&fs=m:90+t:2&fields=f1,f2,f3,f4,f12,f13,f14''"

abbreviation astock_industry_url :: string where
  "astock_industry_url \<equiv> ''https://push2.eastmoney.com/api/qt/clist/get?pn=1&pz=20&po=1&np=1&ut=bd1d9ddb04089700cf9c27f6f7426281&fltt=2&invt=2&fid=f3&fs=m:90+t:3&fields=f1,f2,f3,f4,f12,f13,f14''"

text \<open>
  The loop bodies and record builders below are the same text in \<^verbatim>\<open>astock.py\<close> and in
  \<^verbatim>\<open>astock_service.py\<close>. An index item is copied field by field, with a default for
  an absent key only.
\<close>

definition index_item :: "pyval \<Rightarrow> exc + pyval" where
  "index_item item =
     and_then (get item ''f12'' (VStr [])) (\<lambda>symbol.
     and_then (get item ''f14'' (VStr [])) (\<lambda>name.
     and_then (get item ''f2'' (VInt 0)) (\<lambda>price.
     and_then (get item ''f3'' (VInt 0)) (\<lambda>change.
       Inr (VDict [(''symbol'', symbol), (''name'', name),
                   (''price'', price), (''change'', change)])))))"

definition board_item :: "pyval \<Rightarrow> exc + pyval" where
  "board_item item =
     and_then (get item ''f14'' (VStr [])) (\<lambda>name.
     and_then (get item ''f3'' (VInt 0)) (\<lambda>change.
       Inr (VDict [(''name'', name), (''change'', change)])))"

text \<open>\<^verbatim>\<open>obj.get(k, 0) / 100 if obj.get(k) else 0\<close>\<close>

definition scaled :: "pyval \<Rightarrow> string \<Rightarrow> exc + pyval" where
  "scaled obj k =
     and_then (get obj k VNone) (\<lambda>c.
       if truthy c then and_then (get obj k (VInt 0)) truediv_100
       else Inr (VInt 0))"

definition stock_quote :: "string \<Rightarrow> pyval \<Rightarrow> exc + pyval" where
  "stock_quote symbol obj =
     and_then (get obj ''f58'' (VStr [])) (\<lambda>name.
     and_then (scaled obj ''f43'') (\<lambda>price.
     and_then (scaled obj ''f170'') (\<lambda>change.
       Inr (VDict [(''symbol'', VStr symbol), (''name'', name),
                   (''price'', price), (''change'', change)]))))"

text \<open>\<^verbatim>\<open>for item in obj.get('data', {}).get('diff', [])\<close> with the board loop body.\<close>

definition board_list :: "pyval \<Rightarrow> exc + pyval" where
  "board_list obj =
     and_then (get obj ''data'' (VDict [])) (\<lambda>d.
     and_then (get d ''diff'' (VList [])) (\<lambda>diff.
     and_then (iter diff) (\<lambda>items.
     and_then (for_each board_item items) (\<lambda>boards.
       Inr (VList boards)))))"

text \<open>\<^verbatim>\<open>for item in obj.get('data', [])\<close> with the index loop body.\<close>

definition index_list :: "pyval \<Rightarrow> exc + pyval" where
  "index_list obj =
     and_then (get obj ''data'' (VList [])) (\<lambda>d.
     and_then (iter d) (\<lambda>items.
     and_then (for_each index_item items) (\<lambda>indices.
       Inr (VList indices))))"

abbreviation concept_placeholder :: pyval where
  "concept_placeholder \<equiv>
     VList [VDict [(''name'', VStr zh_ai), (''change'', VFloat 3.25)],
            VDict [(''name'', VStr zh_chip), (''change'', VFloat 2.18)]]"

abbreviation industry_placeholder :: pyval where
  "industry_placeholder \<equiv>
     VList [VDict [(''name'', VStr zh_electronic), (''change'', VFloat 1.85)],
            VDict [(''name'', VStr zh_software), (''change'', VFloat 1.62)]]"

text \<open>
  Each command returns the payloads it prints, in order (the argument of
  \<^verbatim>\<open>print(json.dumps(...))\<close> before it is serialised).
\<close>

definition astock_get_index :: "env \<Rightarrow> exc + pyval list" where
  "astock_get_index e =
     and_then (astock_curl_get e astock_index_url) (\<lambda>data.
       if no_data data then Inr [VList [VDict [(''error'', VStr zh_fetch_failed)]]]
       else try_except
         (and_then (loads_data e data) (\<lambda>obj.
          and_then (index_list obj) (\<lambda>indices. Inr [indices])))
         (\<lambda>ex. Inr [VList [VDict [(''error'', VStr zh_parse_failed)]]]))"

definition astock_get_stock :: "env \<Rightarrow> string \<Rightarrow> exc + pyval list" where
  "astock_get_stock e symbol =
     and_then (astock_curl_get e (astock_stock_url symbol)) (\<lambda>data.
       if no_data data then Inr [VDict [(''error'', VStr zh_fetch_failed)]]
       else try_except
         (and_then (loads_data e data) (\<lambda>obj.
          and_then (get obj ''data'' (VDict [])) (\<lambda>obj.
          and_then (stock_quote symbol obj) (\<lambda>quote. Inr [quote]))))
         (\<lambda>ex. Inr [VDict [(''error'', VStr zh_parse_failed)]]))"

definition astock_get_concept :: "env \<Rightarrow> exc + pyval list" where
  "astock_get_concept e =
     and_then (astock_curl_get e astock_concept_url) (\<lambda>data.
       if no_data data then Inr [concept_placeholder]
       else try_except
         (and_then (loads_data e data) (\<lambda>obj.
          and_then (board_list obj) (\<lambda>concepts. Inr [concepts])))
         (\<lambda>ex. Inr [concept_placeholder]))"

definition astock_get_industry :: "env \<Rightarrow> exc + pyval list" where
  "astock_get_industry e =
     and_then (astock_curl_get e astock_industry_url) (\<lambda>data.
       if no_data data then Inr [industry_placeholder]
       else try_except
         (and_then (loads_data e data) (\<lambda>obj.
          and_then (board_list obj) (\<lambda>industries. Inr [industries])))
         (\<lambda>ex. Inr [industry_placeholder]))"

text \<open>
  The \<^verbatim>\<open>__main__\<close> block of \<^verbatim>\<open>astock.py\<close>; \<open>argv\<close> is \<^verbatim>\<open>sys.argv\<close>. The chain of
  \<^verbatim>\<open>if\<close>/\<^verbatim>\<open>elif\<close> has no \<^verbatim>\<open>else\<close>: another command prints nothing.
\<close>

definition astock_main :: "env \<Rightarrow> string list \<Rightarrow> exc + pyval list" where
  "astock_main e argv =
     (let cmd = (if length argv > 1 then argv ! 1 else ''index'');
          arg = (if length argv > 2 then argv ! 2 else '''')
      in if cmd = ''index'' then astock_get_index e
         else if cmd = ''stock'' then astock_get_stock e arg
         else if cmd = ''concept'' then astock_get_concept e
         else if cmd = ''industry'' then astock_get_industry e
         else Inr [])"

section \<open>\<^verbatim>\<open>astock_service.py\<close>: the HTTP service over the public HTTP interface\<close>

text \<open>
  What \<^verbatim>\<open>send_json\<close> writes: the status line and the payload before it is serialised.
  The field \<open>fetched\<close> is not part of the answer: it lists the upstream requests
  (URLs, or names of data-library calls) made while the request was handled.
\<close>

record response =
  status :: nat
  body :: pyval
  fetched :: "string list"

definition send_json :: "pyval \<Rightarrow> nat \<Rightarrow> string list \<Rightarrow> exc + response" where
  "send_json data st calls = Inr \<lparr>status = st, body = data, fetched = calls\<rparr>"

text \<open>
  \<^verbatim>\<open>curl_get\<close> of the service: the child gets 15 seconds, and \<^verbatim>\<open>except Exception\<close>
  catches what \<^verbatim>\<open>subprocess.run\<close> raises (the message it prints goes to the log).
\<close>

definition service_curl_get :: "env \<Rightarrow> string \<Rightarrow> exc + string option" where
  "service_curl_get e url =
     try_except
       (and_then (run e [''curl'', ''-s'', ''-m'', ''10'', ''--noproxy'', ''*'', url] (Some 15))
          (\<lambda>result. Inr (Some (stdout result))))
       (\<lambda>ex. Inr None)"

abbreviation service_index_url :: string where
  "service_index_url \<equiv> ''https://push2.eastmoney.com/api/qt/ulist.np/get?fltt=2&fields=f2,f3,f4,f12,f14&secids=1.000001,0.399001,0.399006,1.000300,1.000016,1.000905,0.399101,0.399102''"

definition service_stock_url :: "string \<Rightarrow> string" where
  "service_stock_url symbol =
     ''https://push2.eastmoney.com/api/qt/stock/get?secid=1.'' @ symbol @
     ''&fields=f43,f44,f45,f46,f47,f48,f58,f170''"

abbreviation service_concept_url :: string where
  "service_concept_url \<equiv> ''https://push2.eastmoney.com/api/qt/clist/get?pn=1&pz=20&po=1&np=1&ut=bd1d9ddb04089700cf9c27f6f7426281&fltt=2&invt=2&fid=f3&fs=m:90+t:2&fields=f2,f3,f4,f12,f14''"

abbreviation service_industry_url :: string where
  "service_industry_url \<equiv> ''https://push2.eastmoney.com/api/qt/clist/get?pn=1&pz=20&po=1&np=1&ut=bd1d9ddb04089700cf9c27f6f7426281&fltt=2&invt=2&fid=f3&fs=m:90+t:3&fields=f2,f3,f4,f12,f14''"

text \<open>\<^verbatim>\<open>path.split('/')[-1]\<close>: what follows the last slash, the whole path if it has none.\<close>

definition last_segment :: "string \<Rightarrow> string" where
  "last_segment path = rev (takeWhile (\<lambda>c. c \<noteq> CHR ''/'') (rev path))"

abbreviation index_placeholder :: pyval where
  "index_placeholder \<equiv>
     VList [VDict [(''symbol'', VStr ''000001''), (''name'', VStr zh_sse_index),
                   (''price'', VInt 3388), (''change'', VFloat 0.5)]]"

definition stock_placeholder :: "string \<Rightarrow> pyval" where
  "stock_placeholder symbol =
     VDict [(''symbol'', VStr symbol), (''name'', VStr zh_stock),
            (''price'', VFloat 10.0), (''change'', VFloat 0.0)]"

text \<open>The branches of \<^verbatim>\<open>do_GET\<close>, one definition for each.\<close>

definition service_index :: "env \<Rightarrow> exc + response" where
  "service_index e =
     and_then (service_curl_get e service_index_url) (\<lambda>data.
       if no_data data then send_json index_placeholder 200 [service_index_url]
       else try_except
         (and_then (loads_data e data) (\<lambda>obj.
          and_then (index_list obj) (\<lambda>indices.
            send_json indices 200 [service_index_url])))
         (\<lambda>ex. send_json index_placeholder 200 [service_index_url]))"

definition service_stock :: "env \<Rightarrow> string \<Rightarrow> exc + response" where
  "service_stock e path =
     (let symbol = last_segment path; url = service_stock_url symbol
      in and_then (service_curl_get e url) (\<lambda>data.
           if no_data data then send_json (stock_placeholder symbol) 200 [url]
           else try_except
             (and_then (loads_data e data) (\<lambda>obj.
              and_then (get obj ''data'' (VDict [])) (\<lambda>obj.
              and_then (stock_quote symbol obj) (\<lambda>quote.
                send_json quote 200 [url]))))
             (\<lambda>ex. send_json (stock_placeholder symbol) 200 [url])))"

definition service_concept :: "env \<Rightarrow> exc + response" where
  "service_concept e =
     and_then (service_curl_get e service_concept_url) (\<lambda>data.
       if no_data data then send_json concept_placeholder 200 [service_concept_url]
       else try_except
         (and_then (loads_data e data) (\<lambda>obj.
          and_then (board_list obj) (\<lambda>concepts.
            send_json concepts 200 [service_concept_url])))
         (\<lambda>ex. send_json concept_placeholder 200 [service_concept_url]))"

definition service_industry :: "env \<Rightarrow> exc + response" where
  "service_industry e =
     and_then (service_curl_get e service_industry_url) (\<lambda>data.
       if no_data data then send_json industry_placeholder 200 [service_industry_url]
       else try_except
         (and_then (loads_data e data) (\<lambda>obj.
          and_then (board_list obj) (\<lambda>industries.
            send_json industries 200 [service_industry_url])))
         (\<lambda>ex. send_json industry_placeholder 200 [service_industry_url]))"

text \<open>
  \<^verbatim>\<open>StockHandler.do_GET\<close> of \<^verbatim>\<open>astock_service.py\<close>. \<^verbatim>\<open>'/index' in path\<close> is the
  substring test; the tests are made in this order, and the first that holds answers.
\<close>

definition service_do_GET :: "env \<Rightarrow> string \<Rightarrow> exc + response" where
  "service_do_GET e path =
     (if path = ''/health'' then
        send_json (VDict [(''status'', VStr ''ok''), (''service'', VStr zh_service_astock)]) 200 []
      else if path = ''/stock/index/realtime'' \<or> sublist ''/index'' path then service_index e
      else if sublist ''/stock/realtime/'' path then service_stock e path
      else if path = ''/stock/concept'' \<or> sublist ''/concept'' path then service_concept e
      else if path = ''/stock/industry'' \<or> sublist ''/industry'' path then service_industry e
      else send_json (VDict [(''error'', VStr ''Unknown endpoint'')]) 200 [])"

section \<open>\<^verbatim>\<open>akshare_service.py\<close>: the HTTP service over the data library\<close>

text \<open>
  The data-frame operations the scripts use. \<^verbatim>\<open>row.get(k, d)\<close> gives the cell of label
  \<open>k\<close> in a \<^verbatim>\<open>Series\<close>, or \<open>d\<close> when it has no such label; \<^verbatim>\<open>df.head(n)\<close> keeps the first
  \<open>n\<close> rows; \<^verbatim>\<open>df.iterrows()\<close> yields one \<^verbatim>\<open>Series\<close> for each row; \<^verbatim>\<open>df[df[k] == s]\<close>
  keeps the rows whose stored cell in column \<open>k\<close> is the string \<open>s\<close> and raises
  \<^verbatim>\<open>KeyError\<close> when the frame has no column \<open>k\<close>.
\<close>

definition row_get :: "(string \<times> pyval) list \<Rightarrow> string \<Rightarrow> pyval \<Rightarrow> pyval" where
  "row_get row k d = (case map_of row k of Some v \<Rightarrow> v | None \<Rightarrow> d)"

definition df_head :: "nat \<Rightarrow> dataframe \<Rightarrow> dataframe" where
  "df_head n df = DataFrame (columns df) (take n (rows df))"

definition iterrows :: "env \<Rightarrow> dataframe \<Rightarrow> (string \<times> pyval) list list" where
  "iterrows e df = map (series_iter e df) (rows df)"

definition select_eq :: "dataframe \<Rightarrow> string \<Rightarrow> string \<Rightarrow> exc + dataframe" where
  "select_eq df k s =
     (if k \<in> set (columns df)
      then Inr (DataFrame (columns df) (filter (\<lambda>row. map_of row k = Some (VStr s)) (rows df)))
      else Inl (Exc ([CHR 0x27] @ k @ [CHR 0x27])))"

text \<open>\<^verbatim>\<open>float(v) if v else d\<close>, for a cell read into a local variable first.\<close>

definition float_or :: "env \<Rightarrow> pyval \<Rightarrow> pyval \<Rightarrow> exc + pyval" where
  "float_or e v d = (if truthy v then py_float e v else Inr d)"

text \<open>\<^verbatim>\<open>float(row.get(k, 0)) if row.get(k) else d\<close>, and the same with \<^verbatim>\<open>int\<close>.\<close>

definition float_field :: "env \<Rightarrow> (string \<times> pyval) list \<Rightarrow> string \<Rightarrow> pyval \<Rightarrow> exc + pyval" where
  "float_field e row k d =
     (if truthy (row_get row k VNone) then py_float e (row_get row k (VInt 0)) else Inr d)"

definition int_field :: "env \<Rightarrow> (string \<times> pyval) list \<Rightarrow> string \<Rightarrow> pyval \<Rightarrow> exc + pyval" where
  "int_field e row k d =
     (if truthy (row_get row k VNone) then py_int e (row_get row k (VInt 0)) else Inr d)"

text \<open>The loop bodies of \<^verbatim>\<open>do_GET\<close>.\<close>

definition akshare_quote_item :: "env \<Rightarrow> (string \<times> pyval) list \<Rightarrow> exc + pyval" where
  "akshare_quote_item e row =
     (let price = row_get row col_price VNone; change = row_get row col_change VNone
      in and_then (float_or e price (VInt 0)) (\<lambda>p.
         and_then (float_or e change (VInt 0)) (\<lambda>c.
           Inr (VDict [(''symbol'', row_get row col_code (VStr [])),
                       (''name'', row_get row col_name (VStr [])),
                       (''price'', p), (''change'', c)]))))"

definition akshare_news_item :: "env \<Rightarrow> (string \<times> pyval) list \<Rightarrow> exc + pyval" where
  "akshare_news_item e row =
     Inr (VDict [(''title'', row_get row col_title (VStr [])),
                 (''datetime'', VStr (py_str e (row_get row col_time (VStr []))))])"

definition akshare_board_item :: "env \<Rightarrow> (string \<times> pyval) list \<Rightarrow> exc + pyval" where
  "akshare_board_item e row =
     (let change = row_get row col_change VNone
      in and_then (float_or e change (VInt 0)) (\<lambda>c.
           Inr (VDict [(''name'', row_get row col_board (VStr [])), (''change'', c)])))"

definition akshare_stock_quote :: "env \<Rightarrow> string \<Rightarrow> (string \<times> pyval) list \<Rightarrow> exc + pyval" where
  "akshare_stock_quote e symbol row =
     and_then (float_field e row col_price (VInt 0)) (\<lambda>p.
     and_then (float_field e row col_change (VInt 0)) (\<lambda>c.
     and_then (float_field e row col_volume (VInt 0)) (\<lambda>v.
       Inr (VDict [(''symbol'', VStr symbol), (''name'', row_get row col_name (VStr [])),
                   (''price'', p), (''change'', c), (''volume'', v)]))))"

text \<open>
  A branch that answers with a list: one library call, the first \<open>n\<close> rows, one record
  for each, and status 500 with the exception's text when anything raised.
\<close>

definition akshare_list :: "env \<Rightarrow> string \<Rightarrow> nat \<Rightarrow> ((string \<times> pyval) list \<Rightarrow> exc + pyval) \<Rightarrow> exc + response" where
  "akshare_list e name n item =
     try_except
       (and_then (ak e name []) (\<lambda>df.
        and_then (for_each item (iterrows e (df_head n df))) (\<lambda>records.
          send_json (VList records) 200 [name])))
       (\<lambda>ex. send_json (VDict [(''error'', VStr (str_exc ex))]) 500 [name])"

definition akshare_stock :: "env \<Rightarrow> string \<Rightarrow> exc + response" where
  "akshare_stock e path =
     (let symbol = last_segment path
      in try_except
           (and_then (ak e ''stock_zh_a_spot_em'' []) (\<lambda>df.
            and_then (select_eq df col_code symbol) (\<lambda>stock.
              case rows stock of
                [] \<Rightarrow> send_json (VDict [(''error'', VStr zh_not_found)]) 404 [''stock_zh_a_spot_em'']
              | row # rest \<Rightarrow>
                  and_then (akshare_stock_quote e symbol (series_iloc e stock row)) (\<lambda>quote.
                    send_json quote 200 [''stock_zh_a_spot_em'']))))
           (\<lambda>ex. send_json (VDict [(''error'', VStr (str_exc ex))]) 500 [''stock_zh_a_spot_em'']))"

text \<open>
  \<^verbatim>\<open>StockHandler.do_GET\<close> of \<^verbatim>\<open>akshare_service.py\<close>: apart from \<^verbatim>\<open>/health\<close> every test
  is \<^verbatim>\<open>path.startswith(...)\<close>, in this order.
\<close>

definition akshare_do_GET :: "env \<Rightarrow> string \<Rightarrow> exc + response" where
  "akshare_do_GET e path =
     (if path = ''/health'' then
        send_json (VDict [(''status'', VStr ''ok''), (''service'', VStr zh_service_akshare)]) 200 []
      else if prefix ''/stock/realtime/all'' path then
        akshare_list e ''stock_zh_a_spot_em'' 100 (akshare_quote_item e)
      else if prefix ''/stock/index/realtime'' path then
        akshare_list e ''stock_zh_index_spot_em'' 10 (akshare_quote_item e)
      else if prefix ''/stock/news'' path then
        akshare_list e ''stock_news_em'' 10 (akshare_news_item e)
      else if prefix ''/stock/concept'' path then
        akshare_list e ''stock_board_concept_name_em'' 20 (akshare_board_item e)
      else if prefix ''/stock/industry'' path then
        akshare_list e ''stock_board_industry_name_em'' 20 (akshare_board_item e)
      else if prefix ''/stock/realtime/'' path then akshare_stock e path
      else send_json (VDict [(''error'', VStr ''Unknown endpoint'')]) 404 [])"

section \<open>\<^verbatim>\<open>data_query.py\<close>: the command line over the data library\<close>

text \<open>
  \<^verbatim>\<open>get_timestamp\<close> reads the clock; both envelopes carry its result. The functions
  return the payload that \<^verbatim>\<open>json.dumps\<close> serialises.
\<close>

definition get_timestamp :: "env \<Rightarrow> string" where
  "get_timestamp e = now e"

definition error_response :: "env \<Rightarrow> string \<Rightarrow> pyval" where
  "error_response e msg =
     VDict [(''success'', VBool False), (''error'', VStr msg),
            (''timestamp'', VStr (get_timestamp e))]"

definition success_response :: "env \<Rightarrow> pyval \<Rightarrow> string \<Rightarrow> pyval" where
  "success_response e data source =
     VDict [(''success'', VBool True), (''data'', data),
            (''timestamp'', VStr (get_timestamp e)), (''source'', VStr source)]"

text \<open>
  The shape every command shares: the rows of the frame (all of them, or the first
  \<open>n\<close>) become records, and any exception becomes the error envelope.
\<close>

definition query :: "env \<Rightarrow> exc + dataframe \<Rightarrow> nat option \<Rightarrow> ((string \<times> pyval) list \<Rightarrow> exc + pyval) \<Rightarrow> exc + pyval" where
  "query e call limit item =
     try_except
       (and_then call (\<lambda>df.
        and_then (for_each item
                    (case limit of None \<Rightarrow> iterrows e df
                     | Some n \<Rightarrow> iterrows e (df_head n df)))
          (\<lambda>result. Inr (success_response e (VList result) ''akshare''))))
       (\<lambda>ex. Inr (error_response e (zh_failed_prefix @ str_exc ex)))"

definition a_stock_realtime_item :: "env \<Rightarrow> (string \<times> pyval) list \<Rightarrow> exc + pyval" where
  "a_stock_realtime_item e row =
     and_then (float_field e row col_price VNone) (\<lambda>price.
     and_then (float_field e row col_change (VInt 0)) (\<lambda>change.
     and_then (float_field e row col_amplitude (VInt 0)) (\<lambda>amplitude.
     and_then (float_field e row col_high VNone) (\<lambda>high.
     and_then (float_field e row col_low VNone) (\<lambda>low.
     and_then (float_field e row col_open VNone) (\<lambda>opn.
     and_then (float_field e row col_prev_close VNone) (\<lambda>close.
       Inr (VDict [(''symbol'', row_get row col_code (VStr [])),
                   (''name'', row_get row col_name (VStr [])),
                   (''price'', price), (''change'', change),
                   (''volume'', row_get row col_volume (VStr [])),
                   (''amount'', row_get row col_amount (VStr [])),
                   (''amplitude'', amplitude), (''high'', high), (''low'', low),
                   (''open'', opn), (''close'', close)]))))))))"

definition get_a_stock_realtime :: "env \<Rightarrow> exc + pyval" where
  "get_a_stock_realtime e =
     query e (ak e ''stock_zh_a_spot_em'' []) (Some 100) (a_stock_realtime_item e)"

definition a_stock_kline_item :: "env \<Rightarrow> (string \<times> pyval) list \<Rightarrow> exc + pyval" where
  "a_stock_kline_item e row =
     and_then (float_field e row col_kopen VNone) (\<lambda>opn.
     and_then (float_field e row col_kclose VNone) (\<lambda>close.
     and_then (float_field e row col_high VNone) (\<lambda>high.
     and_then (float_field e row col_low VNone) (\<lambda>low.
     and_then (float_field e row col_volume (VInt 0)) (\<lambda>volume.
     and_then (float_field e row col_amount (VInt 0)) (\<lambda>amount.
       Inr (VDict [(''date'', VStr (py_str e (row_get row col_date (VStr [])))),
                   (''open'', opn), (''close'', close), (''high'', high), (''low'', low),
                   (''volume'', volume), (''amount'', amount)])))))))"

definition get_a_stock_kline :: "env \<Rightarrow> string \<Rightarrow> string \<Rightarrow> nat \<Rightarrow> exc + pyval" where
  "get_a_stock_kline e symbol period days =
     query e
       (ak e ''stock_zh_a_hist''
          [(''symbol'', symbol), (''period'', period),
           (''start_date'', days_ago e days), (''adjust'', ''qfq'')])
       None (a_stock_kline_item e)"

definition fund_flow_item :: "env \<Rightarrow> (string \<times> pyval) list \<Rightarrow> exc + pyval" where
  "fund_flow_item e row =
     and_then (float_field e row col_main (VInt 0)) (\<lambda>main.
     and_then (float_field e row col_retail (VInt 0)) (\<lambda>retail.
     and_then (float_field e row col_xlarge (VInt 0)) (\<lambda>xlarge.
     and_then (float_field e row col_large (VInt 0)) (\<lambda>large.
     and_then (float_field e row col_medium (VInt 0)) (\<lambda>medium.
     and_then (float_field e row col_small (VInt 0)) (\<lambda>small.
       Inr (VDict [(''date'', VStr (py_str e (row_get row col_date (VStr [])))),
                   (col_main, main), (col_retail, retail), (col_xlarge, xlarge),
                   (col_large, large), (col_medium, medium), (col_small, small)])))))))"

definition get_fund_flow :: "env \<Rightarrow> string \<Rightarrow> exc + pyval" where
  "get_fund_flow e symbol =
     query e (ak e ''stock_individual_fund_flow'' [(''stock'', symbol), (''market'', ''sh'')])
       (Some 10) (fund_flow_item e)"

definition index_realtime_item :: "env \<Rightarrow> (string \<times> pyval) list \<Rightarrow> exc + pyval" where
  "index_realtime_item e row =
     and_then (float_field e row col_price VNone) (\<lambda>price.
     and_then (float_field e row col_change (VInt 0)) (\<lambda>change.
       Inr (VDict [(''symbol'', row_get row col_code (VStr [])),
                   (''name'', row_get row col_name (VStr [])),
                   (''price'', price), (''change'', change),
                   (''volume'', row_get row col_volume (VStr [])),
                   (''amount'', row_get row col_amount (VStr []))])))"

definition get_index_realtime :: "env \<Rightarrow> exc + pyval" where
  "get_index_realtime e =
     query e (ak e ''stock_zh_index_spot_em'' []) (Some 20) (index_realtime_item e)"

definition futures_realtime_item :: "env \<Rightarrow> (string \<times> pyval) list \<Rightarrow> exc + pyval" where
  "futures_realtime_item e row =
     and_then (float_field e row col_price VNone) (\<lambda>price.
     and_then (float_field e row col_change (VInt 0)) (\<lambda>change.
       Inr (VDict [(''symbol'', row_get row col_contract (VStr [])),
                   (''name'', row_get row col_contract_name (VStr [])),
                   (''latest_price'', price), (''change'', change),
                   (''volume'', row_get row col_volume (VStr [])),
                   (''amount'', row_get row col_amount (VStr []))])))"

definition get_futures_realtime :: "env \<Rightarrow> string \<Rightarrow> exc + pyval" where
  "get_futures_realtime e symbol =
     query e
       (if symbol \<noteq> [] then ak e ''futures_zh_realtime'' [(''symbol'', symbol)]
        else ak e ''futures_zh_realtime_all'' [])
       (Some 20) (futures_realtime_item e)"

definition etf_realtime_item :: "env \<Rightarrow> (string \<times> pyval) list \<Rightarrow> exc + pyval" where
  "etf_realtime_item e row =
     and_then (float_field e row col_price VNone) (\<lambda>price.
     and_then (float_field e row col_change (VInt 0)) (\<lambda>change.
       Inr (VDict [(''symbol'', row_get row col_code (VStr [])),
                   (''name'', row_get row col_name (VStr [])),
                   (''price'', price), (''change'', change),
                   (''volume'', row_get row col_volume (VStr []))])))"

definition get_etf_realtime :: "env \<Rightarrow> exc + pyval" where
  "get_etf_realtime e =
     query e (ak e ''fund_etf_spot_em'' []) (Some 30) (etf_realtime_item e)"

definition concept_board_item :: "env \<Rightarrow> (string \<times> pyval) list \<Rightarrow> exc + pyval" where
  "concept_board_item e row =
     and_then (float_field e row col_change (VInt 0)) (\<lambda>change.
     and_then (int_field e row col_up (VInt 0)) (\<lambda>up.
     and_then (int_field e row col_down (VInt 0)) (\<lambda>down.
       Inr (VDict [(''name'', row_get row col_board (VStr [])), (''change'', change),
                   (''volume'', row_get row col_amount (VStr [])),
                   (''up_count'', up), (''down_count'', down)]))))"

definition get_concept_board :: "env \<Rightarrow> exc + pyval" where
  "get_concept_board e =
     query e (ak e ''stock_board_concept_name_em'' []) (Some 30) (concept_board_item e)"

definition industry_board_item :: "env \<Rightarrow> (string \<times> pyval) list \<Rightarrow> exc + pyval" where
  "industry_board_item e row =
     and_then (float_field e row col_change (VInt 0)) (\<lambda>change.
       Inr (VDict [(''name'', row_get row col_board (VStr [])), (''change'', change),
                   (''volume'', row_get row col_amount (VStr []))]))"

definition get_industry_board :: "env \<Rightarrow> exc + pyval" where
  "get_industry_board e =
     query e (ak e ''stock_board_industry_name_em'' []) (Some 30) (industry_board_item e)"

definition macro_gdp_item :: "env \<Rightarrow> (string \<times> pyval) list \<Rightarrow> exc + pyval" where
  "macro_gdp_item e row =
     and_then (float_field e row col_gdp VNone) (\<lambda>gdp.
     and_then (float_field e row col_gdp_yoy VNone) (\<lambda>yoy.
       Inr (VDict [(''quarter'', VStr (py_str e (row_get row col_quarter (VStr [])))),
                   (''gdp'', gdp), (''gdp_yoy'', yoy)])))"

definition get_macro_gdp :: "env \<Rightarrow> exc + pyval" where
  "get_macro_gdp e = query e (ak e ''macro_china_gdp'' []) None (macro_gdp_item e)"

definition macro_cpi_item :: "env \<Rightarrow> (string \<times> pyval) list \<Rightarrow> exc + pyval" where
  "macro_cpi_item e row =
     and_then (float_field e row col_cpi VNone) (\<lambda>cpi.
     and_then (float_field e row col_cpi_yoy VNone) (\<lambda>yoy.
       Inr (VDict [(''month'', VStr (py_str e (row_get row col_month (VStr [])))),
                   (''cpi'', cpi), (''cpi_yoy'', yoy)])))"

definition get_macro_cpi :: "env \<Rightarrow> exc + pyval" where
  "get_macro_cpi e = query e (ak e ''macro_china_cpi'' []) None (macro_cpi_item e)"

definition stock_news_item :: "env \<Rightarrow> (string \<times> pyval) list \<Rightarrow> exc + pyval" where
  "stock_news_item e row =
     Inr (VDict [(''title'', row_get row col_title (VStr [])),
                 (''datetime'', VStr (py_str e (row_get row col_time (VStr [])))),
                 (''source'', row_get row col_source (VStr []))])"

definition get_stock_news :: "env \<Rightarrow> exc + pyval" where
  "get_stock_news e = query e (ak e ''stock_news_em'' []) (Some 20) (stock_news_item e)"

text \<open>\<^verbatim>\<open>a or b\<close> on strings.\<close>

definition str_or :: "string \<Rightarrow> string \<Rightarrow> string" where
  "str_or a b = (if a \<noteq> [] then a else b)"

abbreviation help_payload :: pyval where
  "help_payload \<equiv>
     VDict [(''commands'', VDict [
       (''stock'', VStr help_stock),
       (''kline <symbol> [period]'', VStr help_kline),
       (''fundflow <symbol>'', VStr help_fundflow),
       (''index'', VStr help_index),
       (''futures [symbol]'', VStr help_futures),
       (''etf'', VStr help_etf),
       (''concept'', VStr help_concept),
       (''industry'', VStr help_industry),
       (''gdp'', VStr help_gdp),
       (''cpi'', VStr help_cpi),
       (''news'', VStr help_news)])]"

text \<open>
  \<^verbatim>\<open>main\<close> of \<^verbatim>\<open>data_query.py\<close>; \<open>argv\<close> is \<^verbatim>\<open>sys.argv\<close>, and the result lists what is
  printed.
\<close>

definition print_one :: "exc + pyval \<Rightarrow> exc + pyval list" where
  "print_one r = and_then r (\<lambda>payload. Inr [payload])"

definition data_query_main :: "env \<Rightarrow> string list \<Rightarrow> exc + pyval list" where
  "data_query_main e argv =
     (let cmd = (if length argv > 1 then argv ! 1 else ''help'');
          arg1 = (if length argv > 2 then argv ! 2 else '''');
          arg2 = (if length argv > 3 then argv ! 3 else '''')
      in if cmd = ''stock'' then print_one (get_a_stock_realtime e)
         else if cmd = ''kline'' then
           print_one (get_a_stock_kline e (str_or arg1 ''000001'') (str_or arg2 ''daily'') 30)
         else if cmd = ''fundflow'' then print_one (get_fund_flow e (str_or arg1 ''000001''))
         else if cmd = ''index'' then print_one (get_index_realtime e)
         else if cmd = ''futures'' then print_one (get_futures_realtime e arg1)
         else if cmd = ''etf'' then print_one (get_etf_realtime e)
         else if cmd = ''concept'' then print_one (get_concept_board e)
         else if cmd = ''industry'' then print_one (get_industry_board e)
         else if cmd = ''gdp'' then print_one (get_macro_gdp e)
         else if cmd = ''cpi'' then print_one (get_macro_cpi e)
         else if cmd = ''news'' then print_one (get_stock_news e)
         else Inr [help_payload])"

section \<open>Environments for worked examples\<close>

text \<open>
  A stand-in for \<^verbatim>\<open>float\<close>, \<^verbatim>\<open>int\<close> and \<^verbatim>\<open>str\<close> on the values the examples use, and an
  environment in which every child process ends as \<open>r\<close>, every library call as \<open>d\<close>,
  the clock reads \<open>t\<close>, \<^verbatim>\<open>json.loads\<close> knows the texts listed in \<open>j\<close> with the objects
  they denote and raises on any other text, and a \<^verbatim>\<open>Series\<close> holds the stored cells
  unchanged (as the library builds it for a row that mixes strings and numbers).
\<close>

fun example_float :: "pyval \<Rightarrow> exc + pyval" where
  "example_float (VInt a) = Inr (VFloat (of_int a))"
| "example_float (VFloat f) = Inr (VFloat f)"
| "example_float (VBool b) = Inr (VFloat (if b then 1 else 0))"
| "example_float VNegZero = Inr VNegZero"
| "example_float VNaN = Inr VNaN"
| "example_float (VInf s) = Inr (VInf s)"
| "example_float v = Inl (Exc ''could not convert to float'')"

fun example_int :: "pyval \<Rightarrow> exc + pyval" where
  "example_int (VInt a) = Inr (VInt a)"
| "example_int (VFloat f) = Inr (VInt (if f < 0 then - \<lfloor>- f\<rfloor> else \<lfloor>f\<rfloor>))"
| "example_int (VBool b) = Inr (VInt (if b then 1 else 0))"
| "example_int v = Inl (Exc ''could not convert to int'')"

fun example_str :: "pyval \<Rightarrow> string" where
  "example_str (VStr s) = s"
| "example_str v = ''?''"

fun example_loads :: "(string \<times> pyval) list \<Rightarrow> string \<Rightarrow> exc + pyval" where
  "example_loads j s =
     (case map_of j s of Some v \<Rightarrow> Inr v | None \<Rightarrow> Inl (Exc ''JSONDecodeError''))"

definition example_env ::
    "exc + completed \<Rightarrow> (string \<times> pyval) list \<Rightarrow> exc + dataframe \<Rightarrow> string \<Rightarrow> env" where
  "example_env r j d t =
     \<lparr>now = t, days_ago = (\<lambda>n. ''20240101''), run = (\<lambda>argv timeout. r),
      ak = (\<lambda>name args. d), series_iter = (\<lambda>df row. row), series_iloc = (\<lambda>df row. row),
      loads = example_loads j,
      py_float = example_float, py_int = example_int, py_str = example_str\<rparr>"

text \<open>The transfer tool ran out of time (exit code 28) after it wrote part of a body.\<close>

definition partial_transfer :: "exc + completed" where
  "partial_transfer = Inr \<lparr>returncode = 28, stdout = ''{''\<rparr>"

text \<open>
  The stub upstream of the concept-board example: the text it returns, the object that
  \<^verbatim>\<open>json.loads\<close> makes of that text, and an environment whose transfer tool prints the
  text and exits with code 0.
\<close>

definition concept_stub_text :: string where
  "concept_stub_text = ''{\"data\":{\"diff\":[{\"f14\":\"'' @ zh_ai @ ''\",\"f3\":3.25}]}}''"

definition concept_stub_object :: pyval where
  "concept_stub_object =
     VDict [(''data'', VDict [(''diff'',
       VList [VDict [(''f14'', VStr zh_ai), (''f3'', VFloat 3.25)]])])]"

definition concept_stub_env :: env where
  "concept_stub_env =
     example_env (Inr \<lparr>returncode = 0, stdout = concept_stub_text\<rparr>)
       [(concept_stub_text, concept_stub_object)] (Inl (Exc ''no data library''))
       ''2024-01-02T03:04:05''"

text \<open>
  The rescaling as the specification words it: the number a value denotes, and that
  number divided by 100 (as a float, so rounded to the nearest double) when the value
  is truthy, 0 when it is not. A value can be rescaled when it is a number whose
  hundredth is within the range of a float.
\<close>

fun number :: "pyval \<Rightarrow> rat option" where
  "number (VInt a) = Some (of_int a)"
| "number (VFloat f) = Some f"
| "number (VBool b) = Some (if b then 1 else 0)"
| "number VNegZero = Some 0"
| "number v = None"

definition hundredth :: "pyval \<Rightarrow> pyval" where
  "hundredth v =
     (if truthy v
      then (case number v of Some x \<Rightarrow> to_double (x / 100) | None \<Rightarrow> VNone)
      else VInt 0)"

definition rescalable :: "pyval \<Rightarrow> bool" where
  "rescalable v = (case number v of Some x \<Rightarrow> \<bar>x / 100\<bar> < double_overflow | None \<Rightarrow> False)"

text \<open>
  Upstream answers for one stock: a quote with price 1250 and change -50 in hundredths;
  a quote with price 1234 whose change is given as a dash; and the answer for a symbol
  the upstream does not know, whose \<^verbatim>\<open>data\<close> is \<^verbatim>\<open>null\<close>.
\<close>

definition quote_text :: string where
  "quote_text = ''{\"rc\":0,\"data\":{\"f43\":1250,\"f58\":\"PF Bank\",\"f170\":-50}}''"

definition quote_env :: env where
  "quote_env =
     example_env (Inr \<lparr>returncode = 0, stdout = quote_text\<rparr>)
       [(quote_text,
         VDict [(''rc'', VInt 0),
                (''data'', VDict [(''f43'', VInt 1250), (''f58'', VStr ''PF Bank''),
                                  (''f170'', VInt (- 50))])])]
       (Inl (Exc ''no data library'')) ''2024-01-02T03:04:05''"

definition dash_text :: string where
  "dash_text = ''{\"rc\":0,\"data\":{\"f43\":1234,\"f58\":\"PF Bank\",\"f170\":\"-\"}}''"

definition dash_env :: env where
  "dash_env =
     example_env (Inr \<lparr>returncode = 0, stdout = dash_text\<rparr>)
       [(dash_text,
         VDict [(''rc'', VInt 0),
                (''data'', VDict [(''f43'', VInt 1234), (''f58'', VStr ''PF Bank''),
                                  (''f170'', VStr ''-'')])])]
       (Inl (Exc ''no data library'')) ''2024-01-02T03:04:05''"

definition unknown_symbol_text :: string where
  "unknown_symbol_text = ''{\"rc\":0,\"data\":null}''"

definition unknown_symbol_env :: env where
  "unknown_symbol_env =
     example_env (Inr \<lparr>returncode = 0, stdout = unknown_symbol_text\<rparr>)
       [(unknown_symbol_text, VDict [(''rc'', VInt 0), (''data'', VNone)])]
       (Inl (Exc ''no data library'')) ''2024-01-02T03:04:05''"

text \<open>
  An environment in which every upstream is unreachable, and one whose data library
  returns a snapshot of one stock.
\<close>

definition down_env :: env where
  "down_env =
     example_env (Inl (Exc ''timed out'')) []
       (Inl (Exc ''upstream unreachable'')) ''2024-01-02T03:04:05''"

definition snapshot_frame :: dataframe where
  "snapshot_frame =
     DataFrame [col_code, col_name, col_price, col_change]
       [[(col_code, VStr ''600000''), (col_name, VStr ''PF Bank''),
         (col_price, VFloat 12.5), (col_change, VFloat (- 0.5))]]"

definition snapshot_env :: env where
  "snapshot_env =
     example_env (Inl (Exc ''no transfer tool'')) []
       (Inr snapshot_frame) ''2024-01-02T03:04:05''"

text \<open>
  How many records an answer carries: the length of the list that is the body of an
  HTTP answer, or the \<^verbatim>\<open>data\<close> field of a printed envelope; an answer of another shape
  carries none.
\<close>

fun record_count :: "pyval \<Rightarrow> nat" where
  "record_count (VList xs) = length xs"
| "record_count v = 0"

fun http_records :: "exc + response \<Rightarrow> nat" where
  "http_records (Inr r) = record_count (body r)"
| "http_records (Inl ex) = 0"

fun cli_records :: "exc + pyval \<Rightarrow> nat" where
  "cli_records (Inr (VDict kvs)) =
     (case map_of kvs ''data'' of Some v \<Rightarrow> record_count v | None \<Rightarrow> 0)"
| "cli_records r = 0"

text \<open>An upstream that answers the board request with 21 entries.\<close>

definition many_boards_text :: string where
  "many_boards_text =
     ''{\"data\":{\"diff\":['' @ concat (replicate 20 ''{\"f14\":\"board\",\"f3\":1.5},'')
       @ ''{\"f14\":\"board\",\"f3\":1.5}]}}''"

definition many_boards_env :: env where
  "many_boards_env =
     example_env (Inr \<lparr>returncode = 0, stdout = many_boards_text\<rparr>)
       [(many_boards_text,
         VDict [(''data'', VDict [(''diff'',
           VList (replicate 21 (VDict [(''f14'', VStr ''board''), (''f3'', VFloat 1.5)])))])])]
       (Inl (Exc ''no data library'')) ''2024-01-02T03:04:05''"

text \<open>A payload without its \<^verbatim>\<open>timestamp\<close> field.\<close>

fun drop_timestamp :: "pyval \<Rightarrow> pyval" where
  "drop_timestamp (VDict kvs) = VDict (filter (\<lambda>kv. fst kv \<noteq> ''timestamp'') kvs)"
| "drop_timestamp v = v"

text \<open>The subcommands that the two command-line scripts test for.\<close>

definition astock_commands :: "string list" where
  "astock_commands = [''index'', ''stock'', ''concept'', ''industry'']"

definition data_query_commands :: "string list" where
  "data_query_commands =
     [''stock'', ''kline'', ''fundflow'', ''index'', ''futures'', ''etf'', ''concept'',
      ''industry'', ''gdp'', ''cpi'', ''news'']"

text \<open>The field \<open>k\<close> of an emitted record.\<close>

fun field :: "pyval \<Rightarrow> string \<Rightarrow> pyval option" where
  "field (VDict kvs) k = map_of kvs k"
| "field v k = None"

text \<open>
  A snapshot of two stocks: the price of the first is the float zero, that of the second
  is NaN. And an upstream whose index list gives the price as an empty string.
\<close>

definition halted_frame :: dataframe where
  "halted_frame =
     DataFrame [col_code, col_name, col_price, col_change]
       [[(col_code, VStr ''000002''), (col_name, VStr ''Halted''),
         (col_price, VFloat 0), (col_change, VFloat 0)],
        [(col_code, VStr ''000003''), (col_name, VStr ''Unlisted''),
         (col_price, VNaN), (col_change, VFloat 0)]]"

definition halted_env :: env where
  "halted_env =
     example_env (Inl (Exc ''no transfer tool'')) []
       (Inr halted_frame) ''2024-01-02T03:04:05''"

definition empty_price_text :: string where
  "empty_price_text =
     ''{\"data\":[{\"f12\":\"000001\",\"f14\":\"SSE\",\"f2\":\"\",\"f3\":0.5}]}''"

definition empty_price_env :: env where
  "empty_price_env =
     example_env (Inr \<lparr>returncode = 0, stdout = empty_price_text\<rparr>)
       [(empty_price_text,
         VDict [(''data'', VList [VDict [(''f12'', VStr ''000001''), (''f14'', VStr ''SSE''),
                                         (''f2'', VStr []), (''f3'', VFloat 0.5)]])])]
       (Inl (Exc ''no data library'')) ''2024-01-02T03:04:05''"

section \<open>Basic facts\<close>

lemma and_then_case:
  "and_then m f = (case m of Inl ex \<Rightarrow> Inl ex | Inr x \<Rightarrow> f x)"
  by (cases m) simp_all

lemma try_except_case:
  "try_except m h = (case m of Inl ex \<Rightarrow> h ex | Inr x \<Rightarrow> Inr x)"
  by (cases m) simp_all

lemma astock_curl_get_returns:
  "astock_curl_get e url =
     Inr (case run e [''curl'', ''-s'', ''-m'', ''10'', url] None of
            Inl ex \<Rightarrow> None | Inr result \<Rightarrow> Some (stdout result))"
  by (simp add: astock_curl_get_def split: sum.splits)

lemma service_curl_get_returns:
  "service_curl_get e url =
     Inr (case run e [''curl'', ''-s'', ''-m'', ''10'', ''--noproxy'', ''*'', url] (Some 15) of
            Inl ex \<Rightarrow> None | Inr result \<Rightarrow> Some (stdout result))"
  by (simp add: service_curl_get_def split: sum.splits)

lemma last_segment_after_slash:
  assumes "CHR ''/'' \<notin> set s"
  shows "last_segment (p @ ''/'' @ s) = s"
proof -
  have "takeWhile (\<lambda>c. c \<noteq> CHR ''/'') (rev s @ CHR ''/'' # rev p) = rev s"
    using assms by (auto simp: takeWhile_tail)
  then show ?thesis
    by (simp add: last_segment_def)
qed

section \<open>The single-stock quote of the direct-HTTP scripts\<close>

lemma scaled_dict:
  "scaled (VDict kvs) k =
     (case map_of kvs k of
        None \<Rightarrow> Inr (VInt 0)
      | Some v \<Rightarrow> if truthy v then truediv_100 v else Inr (VInt 0))"
  by (simp add: scaled_def split: option.splits)

lemma truediv_100_number:
  assumes "truthy v" and "number v = Some x" and "\<bar>x / 100\<bar> < double_overflow"
  shows "truediv_100 v = Inr (to_double (x / 100))"
  using assms by (cases v) (auto simp: int_div_100_def to_double_def)

lemma truediv_100_rescalable:
  assumes "truthy v" and "rescalable v"
  shows "truediv_100 v = Inr (hundredth v)"
proof -
  obtain x where x: "number v = Some x" "\<bar>x / 100\<bar> < double_overflow"
    using assms(2) by (auto simp: rescalable_def split: option.splits)
  show ?thesis
    using truediv_100_number [OF assms(1) x] assms(1) x(1) by (simp add: hundredth_def)
qed

lemma scaled_hundredth:
  assumes "get (VDict kvs) k VNone = Inr v" and "\<not> truthy v \<or> rescalable v"
  shows "scaled (VDict kvs) k = Inr (hundredth v)"
proof (cases "truthy v")
  case True
  then have "truediv_100 v = Inr (hundredth v)"
    using assms(2) truediv_100_rescalable by blast
  then show ?thesis
    using assms(1) True by (auto simp: scaled_dict split: option.splits)
next
  case False
  then show ?thesis
    using assms(1) by (auto simp: scaled_dict hundredth_def split: option.splits)
qed

lemma stock_quote_numbers:
  assumes "get (VDict kvs) ''f58'' (VStr []) = Inr name"
      and "get (VDict kvs) ''f43'' VNone = Inr p" and "\<not> truthy p \<or> rescalable p"
      and "get (VDict kvs) ''f170'' VNone = Inr c" and "\<not> truthy c \<or> rescalable c"
  shows "stock_quote symbol (VDict kvs) =
           Inr (VDict [(''symbol'', VStr symbol), (''name'', name),
                       (''price'', hundredth p), (''change'', hundredth c)])"
  using assms(1) scaled_hundredth [OF assms(2) assms(3)] scaled_hundredth [OF assms(4) assms(5)]
  by (simp add: stock_quote_def)

section \<open>Dispatch and status codes\<close>

lemma service_index_200: "\<exists>r. service_index e = Inr r \<and> status r = 200"
  by (simp add: service_index_def service_curl_get_returns send_json_def and_then_case
      try_except_case split: sum.splits)

lemma service_stock_200: "\<exists>r. service_stock e path = Inr r \<and> status r = 200"
  by (simp add: service_stock_def service_curl_get_returns send_json_def and_then_case
      try_except_case Let_def split: sum.splits)

lemma service_concept_200: "\<exists>r. service_concept e = Inr r \<and> status r = 200"
  by (simp add: service_concept_def service_curl_get_returns send_json_def and_then_case
      try_except_case split: sum.splits)

lemma service_industry_200: "\<exists>r. service_industry e = Inr r \<and> status r = 200"
  by (simp add: service_industry_def service_curl_get_returns send_json_def and_then_case
      try_except_case split: sum.splits)

lemma service_do_GET_200: "\<exists>r. service_do_GET e path = Inr r \<and> status r = 200"
  using service_index_200 service_stock_200 service_concept_200 service_industry_200
  by (simp add: service_do_GET_def send_json_def)

lemma select_eq_absent:
  assumes "k \<in> set (columns df)"
      and "\<forall>row \<in> set (rows df). map_of row k \<noteq> Some (VStr s)"
  shows "select_eq df k s = Inr (DataFrame (columns df) [])"
proof -
  have "filter (\<lambda>row. map_of row k = Some (VStr s)) (rows df) = []"
    using assms(2) by (simp add: filter_empty_conv)
  then show ?thesis
    using assms(1) by (simp add: select_eq_def)
qed

lemma akshare_stock_path:
  assumes "\<not> prefix ''all'' s"
  shows "akshare_do_GET e (''/stock/realtime/'' @ s) = akshare_stock e (''/stock/realtime/'' @ s)"
  using assms by (simp add: akshare_do_GET_def)

lemma health_path:
  "\<not> sublist ''/index'' ''/health''"
  "\<not> sublist ''/concept'' ''/health''"
  "\<not> sublist ''/industry'' ''/health''"
  "\<not> sublist ''/stock/realtime/'' ''/health''"
  by (simp_all add: sublist_code)

lemma index_path: "sublist ''/index'' ''/stock/index/realtime''"
  by (simp add: sublist_code)

lemma concept_path: "sublist ''/concept'' ''/stock/concept''"
  by (simp add: sublist_code)

section \<open>Iteration and record counts\<close>

lemma for_each_length:
  "for_each f xs = Inr ys \<Longrightarrow> length ys = length xs"
proof (induction xs arbitrary: ys)
  case Nil
  then show ?case by simp
next
  case (Cons x xs)
  then show ?case
    by (auto simp: and_then_case split: sum.splits)
qed

lemma for_each_nth:
  "for_each f xs = Inr ys \<Longrightarrow> i < length xs \<Longrightarrow> f (xs ! i) = Inr (ys ! i)"
proof (induction xs arbitrary: ys i)
  case Nil
  then show ?case by simp
next
  case (Cons x xs)
  then show ?case
    by (cases i) (auto simp: and_then_case split: sum.splits)
qed

lemma for_each_replicate:
  "f x = Inr y \<Longrightarrow> for_each f (replicate n x) = Inr (replicate n y)"
  by (induction n) simp_all

lemma akshare_list_cap: "http_records (akshare_list e name n item) \<le> n"
proof (cases "ak e name []")
  case (Inl ex)
  then show ?thesis
    by (simp add: akshare_list_def send_json_def)
next
  case (Inr df)
  show ?thesis
  proof (cases "for_each item (iterrows e (df_head n df))")
    case (Inl ex)
    then show ?thesis
      using Inr by (simp add: akshare_list_def send_json_def)
  next
    case inner: (Inr records)
    have "length records \<le> n"
      using for_each_length [OF inner] by (simp add: df_head_def iterrows_def)
    then show ?thesis
      using Inr inner by (simp add: akshare_list_def send_json_def)
  qed
qed

lemma query_cap: "cli_records (query e call (Some n) item) \<le> n"
proof (cases call)
  case (Inl ex)
  then show ?thesis
    by (simp add: query_def error_response_def)
next
  case (Inr df)
  show ?thesis
  proof (cases "for_each item (iterrows e (df_head n df))")
    case (Inl ex)
    then show ?thesis
      using Inr by (simp add: query_def error_response_def)
  next
    case inner: (Inr records)
    have "length records \<le> n"
      using for_each_length [OF inner] by (simp add: df_head_def iterrows_def)
    then show ?thesis
      using Inr inner by (simp add: query_def success_response_def)
  qed
qed

lemma akshare_list_count:
  assumes "ak e name [] = Inr df"
      and "for_each item (iterrows e (df_head n df)) = Inr records"
  shows "http_records (akshare_list e name n item) = min n (length (rows df))"
  using assms for_each_length [OF assms(2)]
  by (simp add: akshare_list_def send_json_def df_head_def iterrows_def min.commute)

section \<open>What depends on the clock\<close>

lemma loads_data_now [simp]: "loads_data (e\<lparr>now := t\<rparr>) d = loads_data e d"
  by (cases d) simp_all

lemma astock_curl_get_now [simp]: "astock_curl_get (e\<lparr>now := t\<rparr>) url = astock_curl_get e url"
  by (simp add: astock_curl_get_def)

lemma service_curl_get_now [simp]: "service_curl_get (e\<lparr>now := t\<rparr>) url = service_curl_get e url"
  by (simp add: service_curl_get_def)

lemma astock_main_now: "astock_main (e\<lparr>now := t\<rparr>) argv = astock_main e argv"
  by (simp add: astock_main_def astock_get_index_def astock_get_stock_def
      astock_get_concept_def astock_get_industry_def Let_def cong: if_cong)

lemma service_do_GET_now: "service_do_GET (e\<lparr>now := t\<rparr>) path = service_do_GET e path"
  by (simp add: service_do_GET_def service_index_def service_stock_def service_concept_def
      service_industry_def Let_def cong: if_cong)

lemma iterrows_now [simp]: "iterrows (e\<lparr>now := t\<rparr>) = iterrows e"
  by (simp add: fun_eq_iff iterrows_def)

lemma float_or_now [simp]: "float_or (e\<lparr>now := t\<rparr>) = float_or e"
  by (simp add: fun_eq_iff float_or_def)

lemma float_field_now [simp]: "float_field (e\<lparr>now := t\<rparr>) = float_field e"
  by (simp add: fun_eq_iff float_field_def)

lemma int_field_now [simp]: "int_field (e\<lparr>now := t\<rparr>) = int_field e"
  by (simp add: fun_eq_iff int_field_def)

lemma akshare_items_now [simp]:
  "akshare_quote_item (e\<lparr>now := t\<rparr>) = akshare_quote_item e"
  "akshare_news_item (e\<lparr>now := t\<rparr>) = akshare_news_item e"
  "akshare_board_item (e\<lparr>now := t\<rparr>) = akshare_board_item e"
  "akshare_stock_quote (e\<lparr>now := t\<rparr>) = akshare_stock_quote e"
  by (simp_all add: fun_eq_iff akshare_quote_item_def akshare_news_item_def
      akshare_board_item_def akshare_stock_quote_def)

lemma akshare_do_GET_now: "akshare_do_GET (e\<lparr>now := t\<rparr>) path = akshare_do_GET e path"
  by (simp add: akshare_do_GET_def akshare_list_def akshare_stock_def Let_def
      cong: if_cong list.case_cong)

lemma data_query_items_now [simp]:
  "a_stock_realtime_item (e\<lparr>now := t\<rparr>) = a_stock_realtime_item e"
  "a_stock_kline_item (e\<lparr>now := t\<rparr>) = a_stock_kline_item e"
  "fund_flow_item (e\<lparr>now := t\<rparr>) = fund_flow_item e"
  "index_realtime_item (e\<lparr>now := t\<rparr>) = index_realtime_item e"
  "futures_realtime_item (e\<lparr>now := t\<rparr>) = futures_realtime_item e"
  "etf_realtime_item (e\<lparr>now := t\<rparr>) = etf_realtime_item e"
  "concept_board_item (e\<lparr>now := t\<rparr>) = concept_board_item e"
  "industry_board_item (e\<lparr>now := t\<rparr>) = industry_board_item e"
  "macro_gdp_item (e\<lparr>now := t\<rparr>) = macro_gdp_item e"
  "macro_cpi_item (e\<lparr>now := t\<rparr>) = macro_cpi_item e"
  "stock_news_item (e\<lparr>now := t\<rparr>) = stock_news_item e"
  by (simp_all add: fun_eq_iff a_stock_realtime_item_def a_stock_kline_item_def
      fund_flow_item_def index_realtime_item_def futures_realtime_item_def
      etf_realtime_item_def concept_board_item_def industry_board_item_def
      macro_gdp_item_def macro_cpi_item_def stock_news_item_def)

lemma query_now:
  "map_sum id (map drop_timestamp) (print_one (query (e\<lparr>now := t\<rparr>) call limit item)) =
   map_sum id (map drop_timestamp) (print_one (query e call limit item))"
  by (simp add: query_def print_one_def and_then_case try_except_case success_response_def
      error_response_def get_timestamp_def split: sum.splits cong: option.case_cong)

lemma data_query_main_now:
  "map_sum id (map drop_timestamp) (data_query_main (e\<lparr>now := t\<rparr>) argv) =
   map_sum id (map drop_timestamp) (data_query_main e argv)"
  by (simp add: data_query_main_def Let_def query_now get_a_stock_realtime_def
      get_a_stock_kline_def get_fund_flow_def get_index_realtime_def
      get_futures_realtime_def get_etf_realtime_def get_concept_board_def
      get_industry_board_def get_macro_gdp_def get_macro_cpi_def get_stock_news_def
      cong: if_cong)

section \<open>What the command lines print\<close>

lemma print_query_shape:
  "\<exists>p. print_one (query e call limit item) = Inr [p]
       \<and> (p = help_payload
          \<or> (\<exists>rs. p = success_response e (VList rs) ''akshare'')
          \<or> (\<exists>m. p = error_response e m))"
  by (auto simp: query_def print_one_def and_then_case try_except_case split: sum.splits)

lemma data_query_main_shape:
  "\<exists>p. data_query_main e argv = Inr [p]
       \<and> (p = help_payload
          \<or> (\<exists>rs. p = success_response e (VList rs) ''akshare'')
          \<or> (\<exists>m. p = error_response e m))"
  unfolding data_query_main_def Let_def get_a_stock_realtime_def get_a_stock_kline_def
    get_fund_flow_def get_index_realtime_def get_futures_realtime_def get_etf_realtime_def
    get_concept_board_def get_industry_board_def get_macro_gdp_def get_macro_cpi_def
    get_stock_news_def
  by (simp add: print_query_shape)

lemma print_query_raised:
  "print_one (query e (Inl ex) limit item) =
     Inr [VDict [(''success'', VBool False), (''error'', VStr (zh_failed_prefix @ str_exc ex)),
                 (''timestamp'', VStr (now e))]]"
  by (simp add: query_def print_one_def error_response_def get_timestamp_def)

lemma data_query_main_raised:
  assumes "\<forall>name args. ak e name args = Inl ex" and "cmd \<in> set data_query_commands"
  shows "data_query_main e (prog # cmd # rest) =
     Inr [VDict [(''success'', VBool False), (''error'', VStr (zh_failed_prefix @ str_exc ex)),
                 (''timestamp'', VStr (now e))]]"
  using assms(2)
  unfolding data_query_main_def Let_def get_a_stock_realtime_def get_a_stock_kline_def
    get_fund_flow_def get_index_realtime_def get_futures_realtime_def get_etf_realtime_def
    get_concept_board_def get_industry_board_def get_macro_gdp_def get_macro_cpi_def
    get_stock_news_def
  by (auto simp: assms(1) print_query_raised data_query_commands_def)

lemma astock_handlers_print_one:
  "\<exists>p. astock_get_index e = Inr [p]"
  "\<exists>p. astock_get_stock e symbol = Inr [p]"
  "\<exists>p. astock_get_concept e = Inr [p]"
  "\<exists>p. astock_get_industry e = Inr [p]"
  by (auto simp: astock_get_index_def astock_get_stock_def astock_get_concept_def
      astock_get_industry_def astock_curl_get_returns and_then_case try_except_case
      split: sum.splits)

lemma astock_main_returns: "\<exists>out. astock_main e argv = Inr out"
  using astock_handlers_print_one [of e]
  by (auto simp: astock_main_def Let_def)

lemma astock_main_prints_one:
  assumes "cmd \<in> set astock_commands"
  shows "\<exists>p. astock_main e (prog # cmd # rest) = Inr [p]"
  using assms astock_handlers_print_one [of e]
  by (auto simp: astock_main_def Let_def astock_commands_def)

lemma astock_main_no_data:
  assumes "\<forall>url. \<exists>d. astock_curl_get e url = Inr d \<and> no_data d"
  shows "astock_main e [prog, ''index''] = Inr [VList [VDict [(''error'', VStr zh_fetch_failed)]]]"
    and "astock_main e [prog, ''stock'', symbol] = Inr [VDict [(''error'', VStr zh_fetch_failed)]]"
    and "astock_main e [prog, ''concept''] = Inr [concept_placeholder]"
    and "astock_main e [prog, ''industry''] = Inr [industry_placeholder]"
proof -
  obtain d1 where d1: "astock_curl_get e astock_index_url = Inr d1" "no_data d1"
    using assms by blast
  obtain d2 where d2: "astock_curl_get e (astock_stock_url symbol) = Inr d2" "no_data d2"
    using assms by blast
  obtain d3 where d3: "astock_curl_get e astock_concept_url = Inr d3" "no_data d3"
    using assms by blast
  obtain d4 where d4: "astock_curl_get e astock_industry_url = Inr d4" "no_data d4"
    using assms by blast
  show "astock_main e [prog, ''index''] = Inr [VList [VDict [(''error'', VStr zh_fetch_failed)]]]"
    using d1 by (simp add: astock_main_def astock_get_index_def)
  show "astock_main e [prog, ''stock'', symbol] = Inr [VDict [(''error'', VStr zh_fetch_failed)]]"
    using d2 by (simp add: astock_main_def astock_get_stock_def)
  show "astock_main e [prog, ''concept''] = Inr [concept_placeholder]"
    using d3 by (simp add: astock_main_def astock_get_concept_def)
  show "astock_main e [prog, ''industry''] = Inr [industry_placeholder]"
    using d4 by (simp add: astock_main_def astock_get_industry_def)
qed

section \<open>Records built from a row without a price\<close>

lemma float_or_falsy: "\<not> truthy v \<Longrightarrow> float_or e v d = Inr d"
  by (simp add: float_or_def)

lemma float_field_falsy: "\<not> truthy (row_get row k VNone) \<Longrightarrow> float_field e row k d = Inr d"
  by (simp add: float_field_def)

lemma akshare_quote_item_falsy:
  assumes "\<not> truthy (row_get row col_price VNone)" and "akshare_quote_item e row = Inr q"
  shows "field q ''price'' = Some (VInt 0)"
  using assms
  by (auto simp: akshare_quote_item_def float_or_falsy Let_def and_then_case split: sum.splits)

lemma akshare_stock_quote_falsy:
  assumes "\<not> truthy (row_get row col_price VNone)" and "akshare_stock_quote e s row = Inr q"
  shows "field q ''price'' = Some (VInt 0)"
  using assms
  by (auto simp: akshare_stock_quote_def float_field_falsy and_then_case split: sum.splits)

lemma a_stock_realtime_item_falsy:
  assumes "\<not> truthy (row_get row col_price VNone)" and "a_stock_realtime_item e row = Inr q"
  shows "field q ''price'' = Some VNone"
  using assms
  by (auto simp: a_stock_realtime_item_def float_field_falsy and_then_case split: sum.splits)

lemma index_realtime_item_falsy:
  assumes "\<not> truthy (row_get row col_price VNone)" and "index_realtime_item e row = Inr q"
  shows "field q ''price'' = Some VNone"
  using assms
  by (auto simp: index_realtime_item_def float_field_falsy and_then_case split: sum.splits)

lemma futures_realtime_item_falsy:
  assumes "\<not> truthy (row_get row col_price VNone)" and "futures_realtime_item e row = Inr q"
  shows "field q ''latest_price'' = Some VNone"
  using assms
  by (auto simp: futures_realtime_item_def float_field_falsy and_then_case split: sum.splits)

lemma etf_realtime_item_falsy:
  assumes "\<not> truthy (row_get row col_price VNone)" and "etf_realtime_item e row = Inr q"
  shows "field q ''price'' = Some VNone"
  using assms
  by (auto simp: etf_realtime_item_def float_field_falsy and_then_case split: sum.splits)

lemma stock_quote_falsy:
  assumes "get (VDict kvs) ''f43'' VNone = Inr p" and "\<not> truthy p"
      and "stock_quote symbol (VDict kvs) = Inr q"
  shows "field q ''price'' = Some (VInt 0)"
  using assms
  by (auto simp: stock_quote_def scaled_def and_then_case split: sum.splits option.splits)

lemma index_item_price:
  "index_item (VDict kvs) =
     Inr (VDict [(''symbol'', case map_of kvs ''f12'' of Some v \<Rightarrow> v | None \<Rightarrow> VStr []),
                 (''name'', case map_of kvs ''f14'' of Some v \<Rightarrow> v | None \<Rightarrow> VStr []),
                 (''price'', case map_of kvs ''f2'' of Some v \<Rightarrow> v | None \<Rightarrow> VInt 0),
                 (''change'', case map_of kvs ''f3'' of Some v \<Rightarrow> v | None \<Rightarrow> VInt 0)])"
  by (simp add: index_item_def)

lemma iterrows_head_nth:
  assumes "i < length (rows df)" and "i < n"
  shows "iterrows e (df_head n df) ! i = series_iter e (df_head n df) (rows df ! i)"
  using assms by (simp add: iterrows_def df_head_def)

lemma iterrows_head_length:
  assumes "i < length (rows df)" and "i < n"
  shows "i < length (iterrows e (df_head n df))"
  using assms by (simp add: iterrows_def df_head_def)

lemma akshare_list_records:
  assumes "ak e name [] = Inr df"
      and "akshare_list e name n item = Inr r" and "body r = VList records"
      and "i < length (rows df)" and "i < n"
  shows "item (series_iter e (df_head n df) (rows df ! i)) = Inr (records ! i)"
proof (cases "for_each item (iterrows e (df_head n df))")
  case (Inl ex)
  then show ?thesis
    using assms(1) assms(2) assms(3) by (auto simp: akshare_list_def send_json_def)
next
  case (Inr records')
  then have "records' = records"
    using assms(1) assms(2) assms(3) by (auto simp: akshare_list_def send_json_def)
  then have "for_each item (iterrows e (df_head n df)) = Inr records"
    using Inr by simp
  from for_each_nth [OF this iterrows_head_length [OF assms(4) assms(5)]] show ?thesis
    using iterrows_head_nth [OF assms(4) assms(5)] by simp
qed

lemma query_records:
  assumes "call = Inr df"
      and "query e call (Some n) item = Inr (success_response e (VList records) source)"
      and "i < length (rows df)" and "i < n"
  shows "item (series_iter e (df_head n df) (rows df ! i)) = Inr (records ! i)"
proof (cases "for_each item (iterrows e (df_head n df))")
  case (Inl ex)
  then show ?thesis
    using assms(1) assms(2) by (auto simp: query_def success_response_def error_response_def)
next
  case (Inr records')
  then have "records' = records"
    using assms(1) assms(2) by (auto simp: query_def success_response_def)
  then have "for_each item (iterrows e (df_head n df)) = Inr records"
    using Inr by simp
  from for_each_nth [OF this iterrows_head_length [OF assms(3) assms(4)]] show ?thesis
    using iterrows_head_nth [OF assms(3) assms(4)] by simp
qed

lemma float_or_nan:
  assumes "py_float e VNaN = Inr VNaN"
  shows "float_or e VNaN d = Inr VNaN"
  using assms by (simp add: float_or_def)

lemma akshare_quote_item_nan:
  assumes "row_get row col_price VNone = VNaN" and "py_float e VNaN = Inr VNaN"
      and "akshare_quote_item e row = Inr q"
  shows "field q ''price'' = Some VNaN"
  using assms
  by (auto simp: akshare_quote_item_def float_or_def Let_def and_then_case split: sum.splits)

lemma a_stock_realtime_item_nan:
  assumes "row_get row col_price VNone = VNaN" and "py_float e VNaN = Inr VNaN"
      and "a_stock_realtime_item e row = Inr q"
  shows "field q ''price'' = Some VNaN"
proof -
  have "row_get row col_price (VInt 0) = VNaN"
    using assms(1) by (auto simp: row_get_def split: option.splits)
  then have "float_field e row col_price VNone = Inr VNaN"
    using assms(1) assms(2) by (simp add: float_field_def)
  then show ?thesis
    using assms(3)
    by (auto simp: a_stock_realtime_item_def and_then_case split: sum.splits)
qed

section \<open>The health endpoint\<close>

text \<open>
  C9. In both services and in every environment, whatever the upstream would answer,
  \<^verbatim>\<open>GET /health\<close> is answered with status 200 and an object that has \<^verbatim>\<open>"status": "ok"\<close>
  and a \<^verbatim>\<open>service\<close> field, and no upstream request is made on the way.
\<close>

theorem health_ok:
  "service_do_GET e ''/health'' =
     Inr \<lparr>status = 200,
          body = VDict [(''status'', VStr ''ok''), (''service'', VStr zh_service_astock)],
          fetched = []\<rparr>
   \<and> akshare_do_GET e ''/health'' =
     Inr \<lparr>status = 200,
          body = VDict [(''status'', VStr ''ok''), (''service'', VStr zh_service_akshare)],
          fetched = []\<rparr>"
  by (simp add: service_do_GET_def akshare_do_GET_def send_json_def)

section \<open>The upstream client\<close>

text \<open>
  C5, as amended. Neither \<^verbatim>\<open>curl_get\<close> raises: the result is always a returned value.
  It is \<^verbatim>\<open>None\<close> exactly when \<^verbatim>\<open>subprocess.run\<close> raised (for the service that includes
  the 15 second timeout), and otherwise it is what the child wrote to standard output,
  whatever its exit code.
\<close>

theorem curl_get_total:
  "astock_curl_get e url =
     Inr (case run e [''curl'', ''-s'', ''-m'', ''10'', url] None of
            Inl ex \<Rightarrow> None | Inr result \<Rightarrow> Some (stdout result))
   \<and> service_curl_get e url =
     Inr (case run e [''curl'', ''-s'', ''-m'', ''10'', ''--noproxy'', ''*'', url] (Some 15) of
            Inl ex \<Rightarrow> None | Inr result \<Rightarrow> Some (stdout result))"
  by (simp add: astock_curl_get_def service_curl_get_def split: sum.splits)

text \<open>
  The claim as stated fails: when the transfer tool exits with code 28 after writing
  part of a body, both functions return that part, which is neither \<^verbatim>\<open>None\<close> nor the
  empty string.
\<close>

theorem curl_get_counterexample:
  "partial_transfer = Inr \<lparr>returncode = 28, stdout = ''{''\<rparr>
   \<and> astock_curl_get (example_env partial_transfer [] (Inl (Exc [])) []) ''u''
       = Inr (Some ''{'')
   \<and> service_curl_get (example_env partial_transfer [] (Inl (Exc [])) []) ''u''
       = Inr (Some ''{'')"
  by (simp add: astock_curl_get_def service_curl_get_def example_env_def partial_transfer_def)

section \<open>The concept-board example\<close>

text \<open>
  C8. When the transfer tool prints exactly the stub text (with any exit code) and
  \<^verbatim>\<open>json.loads\<close> reads it as the object it denotes, the \<^verbatim>\<open>concept\<close> command of
  \<^verbatim>\<open>astock.py\<close> prints exactly one payload, the list with the single record of name
  \<open>zh_ai\<close> and change 3.25, and the service answers \<^verbatim>\<open>/stock/concept\<close> with the same
  list. The payload is compared before serialisation.
\<close>

theorem concept_example:
  assumes "run e [''curl'', ''-s'', ''-m'', ''10'', astock_concept_url] None
             = Inr \<lparr>returncode = rc, stdout = concept_stub_text\<rparr>"
      and "run e [''curl'', ''-s'', ''-m'', ''10'', ''--noproxy'', ''*'', service_concept_url]
             (Some 15) = Inr \<lparr>returncode = rc', stdout = concept_stub_text\<rparr>"
      and "loads e concept_stub_text = Inr concept_stub_object"
    shows "astock_main e [prog, ''concept''] =
             Inr [VList [VDict [(''name'', VStr zh_ai), (''change'', VFloat 3.25)]]]
         \<and> service_do_GET e ''/stock/concept'' =
             Inr \<lparr>status = 200,
                  body = VList [VDict [(''name'', VStr zh_ai), (''change'', VFloat 3.25)]],
                  fetched = [service_concept_url]\<rparr>"
proof -
  have nonempty: "\<not> no_data (Some concept_stub_text)"
    by (simp add: concept_stub_text_def)
  have parsed: "and_then (loads_data e (Some concept_stub_text)) board_list =
      Inr (VList [VDict [(''name'', VStr zh_ai), (''change'', VFloat 3.25)]])"
    using assms(3) by (simp add: board_list_def board_item_def concept_stub_object_def)
  have cli: "astock_get_concept e =
      Inr [VList [VDict [(''name'', VStr zh_ai), (''change'', VFloat 3.25)]]]"
    using assms(1) assms(3) nonempty
    by (simp add: astock_get_concept_def astock_curl_get_def board_list_def board_item_def
        concept_stub_object_def)
  have svc: "service_concept e =
      Inr \<lparr>status = 200,
           body = VList [VDict [(''name'', VStr zh_ai), (''change'', VFloat 3.25)]],
           fetched = [service_concept_url]\<rparr>"
    using assms(2) assms(3) nonempty
    by (simp add: service_concept_def service_curl_get_def board_list_def board_item_def
        send_json_def concept_stub_object_def)
  show ?thesis
    using cli svc by (simp add: astock_main_def service_do_GET_def sublist_code)
qed

theorem concept_example_witness:
  "astock_main concept_stub_env [''astock.py'', ''concept''] =
     Inr [VList [VDict [(''name'', VStr zh_ai), (''change'', VFloat 3.25)]]]
   \<and> service_do_GET concept_stub_env ''/stock/concept'' =
     Inr \<lparr>status = 200,
          body = VList [VDict [(''name'', VStr zh_ai), (''change'', VFloat 3.25)]],
          fetched = [service_concept_url]\<rparr>"
  using concept_example [of concept_stub_env 0 0 "''astock.py''"]
  by (simp add: concept_stub_env_def example_env_def)

section \<open>The rescaled single-stock quote\<close>

text \<open>
  C10, as amended. In the \<^verbatim>\<open>stock\<close> command of \<^verbatim>\<open>astock.py\<close> and the
  \<^verbatim>\<open>/stock/realtime/{symbol}\<close> branch of \<^verbatim>\<open>astock_service.py\<close>: when the transfer tool
  returned a text that parses to an object whose \<^verbatim>\<open>data\<close> is an object (or is absent), and
  each of the fields \<^verbatim>\<open>f43\<close> and \<^verbatim>\<open>f170\<close> is falsy, absent or a number (an \<^verbatim>\<open>int\<close>, a
  \<^verbatim>\<open>bool\<close> or a finite float) whose hundredth is below \<open>2 ^ 1024 - 2 ^ 970\<close> in magnitude,
  the reported price is \<^verbatim>\<open>f43\<close> divided by 100 as a float (the nearest double, the
  negative zero for a negative quotient that rounds to zero) when \<^verbatim>\<open>f43\<close> is truthy and 0
  otherwise, and the reported change is \<^verbatim>\<open>f170\<close> divided by 100 likewise when \<^verbatim>\<open>f170\<close> is
  truthy and 0 otherwise.
\<close>

theorem stock_quote_rescaled:
  assumes "astock_curl_get e (astock_stock_url symbol) = Inr (Some text)"
      and "service_curl_get e (service_stock_url symbol) = Inr (Some text)"
      and "text \<noteq> []"
      and "loads e text = Inr obj"
      and "get obj ''data'' (VDict []) = Inr (VDict kvs)"
      and "get (VDict kvs) ''f58'' (VStr []) = Inr name"
      and "get (VDict kvs) ''f43'' VNone = Inr p" and "\<not> truthy p \<or> rescalable p"
      and "get (VDict kvs) ''f170'' VNone = Inr c" and "\<not> truthy c \<or> rescalable c"
      and "sublist ''/stock/realtime/'' path" and "\<not> sublist ''/index'' path"
      and "last_segment path = symbol"
  shows "astock_main e [prog, ''stock'', symbol] =
           Inr [VDict [(''symbol'', VStr symbol), (''name'', name),
                       (''price'', hundredth p), (''change'', hundredth c)]]
       \<and> service_do_GET e path =
           Inr \<lparr>status = 200,
                body = VDict [(''symbol'', VStr symbol), (''name'', name),
                              (''price'', hundredth p), (''change'', hundredth c)],
                fetched = [service_stock_url symbol]\<rparr>"
proof -
  note q = stock_quote_numbers [OF assms(6) assms(7) assms(8) assms(9) assms(10), of symbol]
  have cli: "astock_get_stock e symbol =
      Inr [VDict [(''symbol'', VStr symbol), (''name'', name),
                  (''price'', hundredth p), (''change'', hundredth c)]]"
    using assms(1) assms(3) assms(4) assms(5) q
    by (simp add: astock_get_stock_def)
  have svc: "service_stock e path =
      Inr \<lparr>status = 200,
           body = VDict [(''symbol'', VStr symbol), (''name'', name),
                         (''price'', hundredth p), (''change'', hundredth c)],
           fetched = [service_stock_url symbol]\<rparr>"
    using assms(2) assms(3) assms(4) assms(5) assms(13) q
    by (simp add: service_stock_def send_json_def)
  have "path \<noteq> ''/health''"
    using assms(11) by (auto simp: sublist_code)
  moreover have "path \<noteq> ''/stock/index/realtime''"
    using assms(12) by (auto simp: sublist_code)
  ultimately show ?thesis
    using cli svc assms(11) assms(12) by (simp add: astock_main_def service_do_GET_def)
qed

theorem stock_quote_rescaled_witness:
  "astock_main quote_env [''astock.py'', ''stock'', ''600000''] =
     Inr [VDict [(''symbol'', VStr ''600000''), (''name'', VStr ''PF Bank''),
                 (''price'', VFloat 12.5), (''change'', VFloat (- 0.5))]]
   \<and> service_do_GET quote_env ''/stock/realtime/600000'' =
     Inr \<lparr>status = 200,
          body = VDict [(''symbol'', VStr ''600000''), (''name'', VStr ''PF Bank''),
                        (''price'', VFloat 12.5), (''change'', VFloat (- 0.5))],
          fetched = [service_stock_url ''600000'']\<rparr>"
proof -
  have rounded: "round_double (25 / 2) = 25 / 2" "round_double (- (1 / 2)) = - (1 / 2)"
    by code_simp+
  have price: "hundredth (VInt 1250) = VFloat 12.5"
    using rounded(1) by (simp add: hundredth_def to_double_def double_overflow_def)
  have change: "hundredth (VInt (- 50)) = VFloat (- 0.5)"
    using rounded(2) by (simp add: hundredth_def to_double_def double_overflow_def)
  have fits: "rescalable (VInt 1250)" "rescalable (VInt (- 50))"
    by (simp_all add: rescalable_def double_overflow_def)
  show ?thesis
    using stock_quote_rescaled [of quote_env "''600000''" quote_text
        "VDict [(''rc'', VInt 0),
                (''data'', VDict [(''f43'', VInt 1250), (''f58'', VStr ''PF Bank''),
                                  (''f170'', VInt (- 50))])]"
        "[(''f43'', VInt 1250), (''f58'', VStr ''PF Bank''), (''f170'', VInt (- 50))]"
        "VStr ''PF Bank''" "VInt 1250" "VInt (- 50)" "''/stock/realtime/600000''"
        "''astock.py''"]
      price change fits
    by (simp add: quote_env_def example_env_def quote_text_def astock_curl_get_def
        service_curl_get_def last_segment_def sublist_code)
qed

text \<open>
  The claim as stated fails on a parsed object whose \<^verbatim>\<open>f43\<close> is the number 1234 and
  whose \<^verbatim>\<open>f170\<close> is the string \<^verbatim>\<open>"-"\<close>: the division raises, so \<^verbatim>\<open>astock.py\<close> prints the
  parse-error object, and the service answers with its placeholder quote, whose price
  is 10.0 and not 12.34.
\<close>

theorem stock_quote_counterexample:
  "astock_main dash_env [''astock.py'', ''stock'', ''600000''] =
     Inr [VDict [(''error'', VStr zh_parse_failed)]]
   \<and> service_do_GET dash_env ''/stock/realtime/600000'' =
     Inr \<lparr>status = 200,
          body = VDict [(''symbol'', VStr ''600000''), (''name'', VStr zh_stock),
                        (''price'', VFloat 10), (''change'', VFloat 0)],
          fetched = [service_stock_url ''600000'']\<rparr>"
  by (simp add: dash_env_def example_env_def dash_text_def astock_main_def astock_get_stock_def
      astock_curl_get_def service_do_GET_def service_stock_def service_curl_get_def
      stock_quote_def scaled_def int_div_100_def double_overflow_def send_json_def
      stock_placeholder_def last_segment_def sublist_code Let_def)

section \<open>Absent symbols and path matching\<close>

text \<open>
  C1, as amended. In \<^verbatim>\<open>akshare_service.py\<close>, for a symbol \<open>s\<close> that has no slash and
  does not begin with \<^verbatim>\<open>all\<close>: when the snapshot call returns a frame that has the code
  column and no row whose code is \<open>s\<close>, \<^verbatim>\<open>GET /stock/realtime/s\<close> is answered with status
  404 and an object with an \<^verbatim>\<open>error\<close> field. \<^verbatim>\<open>astock_service.py\<close> never answers 404:
  every request, in every environment, is answered with status 200.
\<close>

theorem absent_symbol_answers:
  assumes "CHR ''/'' \<notin> set s" and "\<not> prefix ''all'' s"
      and "ak e ''stock_zh_a_spot_em'' [] = Inr df"
      and "col_code \<in> set (columns df)"
      and "\<forall>row \<in> set (rows df). map_of row col_code \<noteq> Some (VStr s)"
  shows "akshare_do_GET e (''/stock/realtime/'' @ s) =
           Inr \<lparr>status = 404, body = VDict [(''error'', VStr zh_not_found)],
                fetched = [''stock_zh_a_spot_em'']\<rparr>
       \<and> (\<exists>r. service_do_GET e' path = Inr r \<and> status r = 200)"
proof -
  have seg: "last_segment (''/stock/realtime/'' @ s) = s"
    using last_segment_after_slash [OF assms(1), of "''/stock/realtime''"] by simp
  have "akshare_stock e (''/stock/realtime/'' @ s) =
      Inr \<lparr>status = 404, body = VDict [(''error'', VStr zh_not_found)],
           fetched = [''stock_zh_a_spot_em'']\<rparr>"
    unfolding akshare_stock_def Let_def seg
    using assms(3) select_eq_absent [OF assms(4) assms(5)]
    by (simp add: send_json_def)
  then show ?thesis
    using akshare_stock_path [OF assms(2)] service_do_GET_200 by simp
qed

theorem absent_symbol_answers_witness:
  "akshare_do_GET snapshot_env ''/stock/realtime/000001'' =
     Inr \<lparr>status = 404, body = VDict [(''error'', VStr zh_not_found)],
          fetched = [''stock_zh_a_spot_em'']\<rparr>
   \<and> (\<exists>r. service_do_GET unknown_symbol_env ''/stock/realtime/000001'' = Inr r \<and> status r = 200)"
  using absent_symbol_answers [of "''000001''" snapshot_env snapshot_frame unknown_symbol_env
      "''/stock/realtime/000001''"]
  by (simp add: snapshot_env_def example_env_def snapshot_frame_def)

text \<open>
  The claim as stated fails for \<^verbatim>\<open>astock_service.py\<close>: when the upstream does not know
  the symbol (its answer has \<^verbatim>\<open>"data": null\<close>), the service answers with status 200 and
  its placeholder quote for that symbol.
\<close>

theorem absent_symbol_counterexample:
  "service_do_GET unknown_symbol_env ''/stock/realtime/999999'' =
     Inr \<lparr>status = 200,
          body = VDict [(''symbol'', VStr ''999999''), (''name'', VStr zh_stock),
                        (''price'', VFloat 10), (''change'', VFloat 0)],
          fetched = [service_stock_url ''999999'']\<rparr>"
  by (simp add: unknown_symbol_env_def example_env_def unknown_symbol_text_def
      service_do_GET_def service_stock_def
      service_curl_get_def send_json_def stock_placeholder_def last_segment_def
      stock_quote_def sublist_code Let_def)

text \<open>
  C4, as amended. \<^verbatim>\<open>astock_service.py\<close> tests substrings in a fixed order: every path
  that contains \<^verbatim>\<open>/index\<close> reaches the index branch; a path that contains
  \<^verbatim>\<open>/concept\<close> reaches the concept branch when it contains neither \<^verbatim>\<open>/index\<close> nor
  \<^verbatim>\<open>/stock/realtime/\<close>; a path that contains \<^verbatim>\<open>/industry\<close> reaches the industry branch
  when it contains none of \<^verbatim>\<open>/index\<close>, \<^verbatim>\<open>/stock/realtime/\<close> and \<^verbatim>\<open>/concept\<close>.
  \<^verbatim>\<open>akshare_service.py\<close> tests prefixes: a path that starts with
  \<^verbatim>\<open>/stock/index/realtime\<close>, \<^verbatim>\<open>/stock/concept\<close> or \<^verbatim>\<open>/stock/industry\<close> reaches the
  index, concept or industry branch.
\<close>

theorem dispatch_order:
  assumes "sublist ''/index'' p1"
      and "sublist ''/concept'' p2" and "\<not> sublist ''/index'' p2"
      and "\<not> sublist ''/stock/realtime/'' p2"
      and "sublist ''/industry'' p3" and "\<not> sublist ''/index'' p3"
      and "\<not> sublist ''/stock/realtime/'' p3" and "\<not> sublist ''/concept'' p3"
      and "prefix ''/stock/index/realtime'' q1"
      and "prefix ''/stock/concept'' q2"
      and "prefix ''/stock/industry'' q3"
  shows "service_do_GET e p1 = service_index e
       \<and> service_do_GET e p2 = service_concept e
       \<and> service_do_GET e p3 = service_industry e
       \<and> akshare_do_GET e q1 = akshare_list e ''stock_zh_index_spot_em'' 10 (akshare_quote_item e)
       \<and> akshare_do_GET e q2 =
           akshare_list e ''stock_board_concept_name_em'' 20 (akshare_board_item e)
       \<and> akshare_do_GET e q3 =
           akshare_list e ''stock_board_industry_name_em'' 20 (akshare_board_item e)"
proof -
  have s1: "service_do_GET e p1 = service_index e"
    using assms(1) health_path(1) by (cases "p1 = ''/health''") (simp_all add: service_do_GET_def)
  have "p2 \<noteq> ''/health''" and "p2 \<noteq> ''/stock/index/realtime''"
    using assms(2) assms(3) health_path(2) index_path by auto
  then have s2: "service_do_GET e p2 = service_concept e"
    using assms(2) assms(3) assms(4) by (simp add: service_do_GET_def)
  have "p3 \<noteq> ''/health''" and "p3 \<noteq> ''/stock/index/realtime''"
    and "p3 \<noteq> ''/stock/concept''"
    using assms(5) assms(6) assms(8) health_path(3) index_path concept_path by auto
  then have s3: "service_do_GET e p3 = service_industry e"
    using assms(5) assms(6) assms(7) assms(8) by (simp add: service_do_GET_def)
  obtain r1 where q1: "q1 = ''/stock/index/realtime'' @ r1"
    using assms(9) by (auto elim: prefixE)
  obtain r2 where q2: "q2 = ''/stock/concept'' @ r2"
    using assms(10) by (auto elim: prefixE)
  obtain r3 where q3: "q3 = ''/stock/industry'' @ r3"
    using assms(11) by (auto elim: prefixE)
  have a1: "akshare_do_GET e q1 = akshare_list e ''stock_zh_index_spot_em'' 10 (akshare_quote_item e)"
    unfolding q1 by (simp add: akshare_do_GET_def)
  have a2: "akshare_do_GET e q2 =
      akshare_list e ''stock_board_concept_name_em'' 20 (akshare_board_item e)"
    unfolding q2 by (simp add: akshare_do_GET_def)
  have a3: "akshare_do_GET e q3 =
      akshare_list e ''stock_board_industry_name_em'' 20 (akshare_board_item e)"
    unfolding q3 by (simp add: akshare_do_GET_def)
  show ?thesis
    using s1 s2 s3 a1 a2 a3 by simp
qed

theorem dispatch_order_witness:
  "service_do_GET down_env ''/v2/index'' = service_index down_env
   \<and> service_do_GET down_env ''/v2/concept'' = service_concept down_env
   \<and> service_do_GET down_env ''/v2/industry'' = service_industry down_env
   \<and> akshare_do_GET down_env ''/stock/index/realtime?x=1'' =
       akshare_list down_env ''stock_zh_index_spot_em'' 10 (akshare_quote_item down_env)
   \<and> akshare_do_GET down_env ''/stock/concept/'' =
       akshare_list down_env ''stock_board_concept_name_em'' 20 (akshare_board_item down_env)
   \<and> akshare_do_GET down_env ''/stock/industry'' =
       akshare_list down_env ''stock_board_industry_name_em'' 20 (akshare_board_item down_env)"
  using dispatch_order [of "''/v2/index''" "''/v2/concept''" "''/v2/industry''"
      "''/stock/index/realtime?x=1''" "''/stock/concept/''" "''/stock/industry''" down_env]
  by (simp add: sublist_code)

text \<open>
  The claim as stated fails in both services: \<^verbatim>\<open>/stock/realtime/concept\<close> contains
  \<^verbatim>\<open>/concept\<close> but \<^verbatim>\<open>astock_service.py\<close> answers it from the single-stock branch (here
  with the placeholder quote for the symbol \<^verbatim>\<open>concept\<close>, after asking the upstream for
  that stock), and \<^verbatim>\<open>/v2/concept\<close> contains \<^verbatim>\<open>/concept\<close> but \<^verbatim>\<open>akshare_service.py\<close>
  answers it as an unknown endpoint.
\<close>

theorem dispatch_counterexample:
  "sublist ''/concept'' ''/stock/realtime/concept''
   \<and> service_do_GET down_env ''/stock/realtime/concept'' =
       Inr \<lparr>status = 200,
            body = VDict [(''symbol'', VStr ''concept''), (''name'', VStr zh_stock),
                          (''price'', VFloat 10), (''change'', VFloat 0)],
            fetched = [service_stock_url ''concept'']\<rparr>
   \<and> sublist ''/concept'' ''/v2/concept''
   \<and> akshare_do_GET down_env ''/v2/concept'' =
       Inr \<lparr>status = 404, body = VDict [(''error'', VStr ''Unknown endpoint'')], fetched = []\<rparr>"
  by (simp add: down_env_def example_env_def service_do_GET_def service_stock_def
      service_curl_get_def akshare_do_GET_def send_json_def stock_placeholder_def
      last_segment_def sublist_code Let_def)

section \<open>Record counts\<close>

text \<open>
  C2, as amended. The handlers over the data library truncate, whatever the upstream
  returns: in \<^verbatim>\<open>akshare_service.py\<close> the realtime-all endpoint answers with at most 100
  records, the index endpoint with at most 10 and the concept and industry endpoints
  with at most 20 each; in \<^verbatim>\<open>data_query.py\<close> the \<^verbatim>\<open>stock\<close> command prints at most 100
  records, \<^verbatim>\<open>index\<close> at most 20, \<^verbatim>\<open>concept\<close> and \<^verbatim>\<open>industry\<close> at most 30 each.
\<close>

theorem library_handlers_truncate:
  "http_records (akshare_do_GET e (''/stock/realtime/all'' @ rest)) \<le> 100
   \<and> http_records (akshare_do_GET e (''/stock/index/realtime'' @ rest)) \<le> 10
   \<and> http_records (akshare_do_GET e (''/stock/concept'' @ rest)) \<le> 20
   \<and> http_records (akshare_do_GET e (''/stock/industry'' @ rest)) \<le> 20
   \<and> cli_records (get_a_stock_realtime e) \<le> 100
   \<and> cli_records (get_index_realtime e) \<le> 20
   \<and> cli_records (get_concept_board e) \<le> 30
   \<and> cli_records (get_industry_board e) \<le> 30"
proof -
  have "akshare_do_GET e (''/stock/realtime/all'' @ rest) =
      akshare_list e ''stock_zh_a_spot_em'' 100 (akshare_quote_item e)"
    by (simp add: akshare_do_GET_def)
  moreover have "akshare_do_GET e (''/stock/index/realtime'' @ rest) =
      akshare_list e ''stock_zh_index_spot_em'' 10 (akshare_quote_item e)"
    by (simp add: akshare_do_GET_def)
  moreover have "akshare_do_GET e (''/stock/concept'' @ rest) =
      akshare_list e ''stock_board_concept_name_em'' 20 (akshare_board_item e)"
    by (simp add: akshare_do_GET_def)
  moreover have "akshare_do_GET e (''/stock/industry'' @ rest) =
      akshare_list e ''stock_board_industry_name_em'' 20 (akshare_board_item e)"
    by (simp add: akshare_do_GET_def)
  ultimately show ?thesis
    by (simp add: akshare_list_cap query_cap get_a_stock_realtime_def get_index_realtime_def
        get_concept_board_def get_industry_board_def)
qed

text \<open>
  The claim as stated fails for the handlers over the public HTTP interface, which ask
  the upstream for a page of 20 and emit one record for every item it returns: when the
  upstream answers the concept request with 21 items, \<^verbatim>\<open>astock_service.py\<close> answers
  with 21 records.
\<close>

theorem board_truncation_counterexample:
  "http_records (service_do_GET many_boards_env ''/stock/concept'') = 21"
proof -
  have "for_each board_item (replicate 21 (VDict [(''f14'', VStr ''board''), (''f3'', VFloat 1.5)]))
      = Inr (replicate 21 (VDict [(''name'', VStr ''board''), (''change'', VFloat 1.5)]))"
    by (rule for_each_replicate) (simp add: board_item_def)
  moreover have "many_boards_text \<noteq> []"
    by (simp add: many_boards_text_def)
  ultimately show ?thesis
    by (simp add: many_boards_env_def example_env_def service_do_GET_def service_concept_def
        service_curl_get_def board_list_def send_json_def sublist_code)
qed

section \<open>Repeated requests\<close>

text \<open>
  C3, as amended. Two requests that differ only in the time \<^verbatim>\<open>datetime.now()\<close> reads
  get the same answer from both HTTP services and from \<^verbatim>\<open>astock.py\<close>, and from
  \<^verbatim>\<open>data_query.py\<close> the same payload apart from its \<^verbatim>\<open>timestamp\<close> field. (The start
  date that the \<^verbatim>\<open>kline\<close> command sends upstream is read from the clock as well; it is
  the separate reading \<open>days_ago\<close>, held fixed here.)
\<close>

theorem payload_independent_of_clock:
  "service_do_GET (e\<lparr>now := t\<rparr>) path = service_do_GET e path
   \<and> akshare_do_GET (e\<lparr>now := t\<rparr>) path = akshare_do_GET e path
   \<and> astock_main (e\<lparr>now := t\<rparr>) argv = astock_main e argv
   \<and> map_sum id (map drop_timestamp) (data_query_main (e\<lparr>now := t\<rparr>) argv) =
       map_sum id (map drop_timestamp) (data_query_main e argv)"
  by (simp add: service_do_GET_now akshare_do_GET_now astock_main_now data_query_main_now)

text \<open>
  The claim as stated fails for \<^verbatim>\<open>data_query.py\<close>: with the same upstream snapshot, the
  \<^verbatim>\<open>index\<close> command run one second later prints a different payload, because both
  envelopes carry the time of the call.
\<close>

theorem timestamp_counterexample:
  "data_query_main (snapshot_env\<lparr>now := ''2024-01-02T03:04:06''\<rparr>) [''data_query.py'', ''index'']
     \<noteq> data_query_main snapshot_env [''data_query.py'', ''index'']"
  by (simp add: data_query_main_def get_index_realtime_def query_def print_one_def
      snapshot_env_def example_env_def snapshot_frame_def df_head_def iterrows_def
      index_realtime_item_def
      float_field_def row_get_def success_response_def get_timestamp_def)

section \<open>Command-line invocations\<close>

text \<open>
  C6, as amended. A run that returns (\<open>Inr\<close>) ends with exit code 0; the list returned
  is what was printed.
  \<^item> \<^verbatim>\<open>data_query.py\<close>, for every argument vector and every environment \<open>e0\<close>, returns
    after printing exactly one object: the help object, a success envelope, or an
    envelope with \<^verbatim>\<open>"success": false\<close> and an \<^verbatim>\<open>error\<close> field. When every call of the
    data library raises, each of its eleven subcommands prints the latter.
  \<^item> \<^verbatim>\<open>astock.py\<close> always returns, and for each of its four subcommands it prints exactly
    one payload. When the transfer tool gives no data, \<^verbatim>\<open>index\<close> and \<^verbatim>\<open>stock\<close> print an
    object with an \<^verbatim>\<open>error\<close> field, while \<^verbatim>\<open>concept\<close> and \<^verbatim>\<open>industry\<close> print their fixed
    placeholder lists.
\<close>

theorem cli_always_prints:
  assumes "\<forall>name args. ak e name args = Inl ex"
      and "cmd \<in> set data_query_commands"
      and "cmd' \<in> set astock_commands"
      and "\<forall>url. \<exists>d. astock_curl_get e url = Inr d \<and> no_data d"
  shows "(\<exists>p. data_query_main e0 argv = Inr [p]
            \<and> (p = help_payload
               \<or> (\<exists>rs. p = success_response e0 (VList rs) ''akshare'')
               \<or> (\<exists>m. p = VDict [(''success'', VBool False), (''error'', VStr m),
                                  (''timestamp'', VStr (now e0))])))
       \<and> data_query_main e (prog # cmd # rest) =
           Inr [VDict [(''success'', VBool False),
                       (''error'', VStr (zh_failed_prefix @ str_exc ex)),
                       (''timestamp'', VStr (now e))]]
       \<and> (\<exists>out. astock_main e0 argv = Inr out)
       \<and> (\<exists>p. astock_main e0 (prog # cmd' # rest) = Inr [p])
       \<and> astock_main e [prog, ''index''] = Inr [VList [VDict [(''error'', VStr zh_fetch_failed)]]]
       \<and> astock_main e [prog, ''stock'', symbol] = Inr [VDict [(''error'', VStr zh_fetch_failed)]]
       \<and> astock_main e [prog, ''concept''] = Inr [concept_placeholder]
       \<and> astock_main e [prog, ''industry''] = Inr [industry_placeholder]"
proof -
  have shape: "\<exists>p. data_query_main e0 argv = Inr [p]
            \<and> (p = help_payload
               \<or> (\<exists>rs. p = success_response e0 (VList rs) ''akshare'')
               \<or> (\<exists>m. p = VDict [(''success'', VBool False), (''error'', VStr m),
                                  (''timestamp'', VStr (now e0))]))"
    using data_query_main_shape [of e0 argv]
    by (simp add: error_response_def get_timestamp_def)
  show ?thesis
    using shape data_query_main_raised [OF assms(1) assms(2)] astock_main_returns [of e0 argv]
      astock_main_prints_one [OF assms(3), of e0 prog rest] astock_main_no_data [OF assms(4)]
    by simp
qed

theorem cli_always_prints_witness:
  "(\<exists>p. data_query_main snapshot_env [''script.py'', ''bogus''] = Inr [p]
            \<and> (p = help_payload
               \<or> (\<exists>rs. p = success_response snapshot_env (VList rs) ''akshare'')
               \<or> (\<exists>m. p = VDict [(''success'', VBool False), (''error'', VStr m),
                                  (''timestamp'', VStr (now snapshot_env))])))
       \<and> data_query_main down_env [''script.py'', ''kline'', ''600000''] =
           Inr [VDict [(''success'', VBool False),
                       (''error'', VStr (zh_failed_prefix @ ''upstream unreachable'')),
                       (''timestamp'', VStr ''2024-01-02T03:04:05'')]]
       \<and> (\<exists>out. astock_main snapshot_env [''script.py'', ''bogus''] = Inr out)
       \<and> (\<exists>p. astock_main snapshot_env [''script.py'', ''stock'', ''600000''] = Inr [p])
       \<and> astock_main down_env [''script.py'', ''index''] =
           Inr [VList [VDict [(''error'', VStr zh_fetch_failed)]]]
       \<and> astock_main down_env [''script.py'', ''stock'', ''600000''] =
           Inr [VDict [(''error'', VStr zh_fetch_failed)]]
       \<and> astock_main down_env [''script.py'', ''concept''] = Inr [concept_placeholder]
       \<and> astock_main down_env [''script.py'', ''industry''] = Inr [industry_placeholder]"
  using cli_always_prints [of down_env "Exc ''upstream unreachable''" "''kline''" "''stock''"
      snapshot_env "[''script.py'', ''bogus'']" "''script.py''" "[''600000'']" "''600000''"]
  by (simp add: down_env_def example_env_def data_query_commands_def astock_commands_def
      astock_curl_get_def)

text \<open>
  The claim as stated fails for \<^verbatim>\<open>astock.py\<close>: with the upstream unreachable, the
  \<^verbatim>\<open>concept\<close> command prints two board entries and neither an \<^verbatim>\<open>error\<close> field nor
  \<^verbatim>\<open>"success": false\<close>.
\<close>

theorem cli_failure_counterexample:
  "astock_main down_env [''astock.py'', ''concept''] =
     Inr [VList [VDict [(''name'', VStr zh_ai), (''change'', VFloat 3.25)],
                 VDict [(''name'', VStr zh_chip), (''change'', VFloat 2.18)]]]"
  by (simp add: down_env_def example_env_def astock_main_def astock_get_concept_def
      astock_curl_get_def)

section \<open>The price of a quote\<close>

text \<open>
  C7, as amended. The price meant is the one the handler reads: for the handlers over
  the data library it is what \<^verbatim>\<open>row.get\<close> returns on the \<^verbatim>\<open>Series\<close> that \<^verbatim>\<open>iterrows()\<close> or
  \<^verbatim>\<open>iloc\<close> built for the row (\<open>row\<close> below is such a \<^verbatim>\<open>Series\<close>). When that price is absent
  or falsy, every record that is emitted has price 0 in \<^verbatim>\<open>akshare_service.py\<close> (list and
  single-stock records) and in the single-stock records of the scripts over the public
  HTTP interface, and price \<^verbatim>\<open>None\<close> in \<^verbatim>\<open>data_query.py\<close> (\<^verbatim>\<open>stock\<close>, \<^verbatim>\<open>index\<close>,
  \<^verbatim>\<open>futures\<close> with its \<^verbatim>\<open>latest_price\<close>, \<^verbatim>\<open>etf\<close>). The index records of the scripts over
  the public HTTP interface have price 0 when the price is absent and the upstream value
  itself when it is present. Two parts state the same for whole answers: the record at
  position \<open>i\<close> of the realtime-all answer of \<^verbatim>\<open>akshare_service.py\<close> and of the \<^verbatim>\<open>stock\<close>
  payload of \<^verbatim>\<open>data_query.py\<close>, when the \<^verbatim>\<open>Series\<close> of row \<open>i\<close> has no price. NaN, which
  the data library puts where a price is missing, is truthy: when \<^verbatim>\<open>float\<close> returns it
  unchanged, the list records of both scripts over the data library carry NaN as price.
\<close>

theorem falsy_price_default:
  assumes "\<not> truthy (row_get row col_price VNone)"
      and "get (VDict kvs) ''f43'' VNone = Inr p" and "\<not> truthy p"
      and "map_of absent ''f2'' = None"
      and "map_of present ''f2'' = Some v"
      and "ak e ''stock_zh_a_spot_em'' [] = Inr df"
      and "i < length (rows df)" and "i < 100"
      and "\<not> truthy (row_get (series_iter e (df_head 100 df) (rows df ! i)) col_price VNone)"
      and "row_get nan_row col_price VNone = VNaN" and "py_float e VNaN = Inr VNaN"
  shows "(\<forall>q. akshare_quote_item e row = Inr q \<longrightarrow> field q ''price'' = Some (VInt 0))
       \<and> (\<forall>q. akshare_stock_quote e s row = Inr q \<longrightarrow> field q ''price'' = Some (VInt 0))
       \<and> (\<forall>q. a_stock_realtime_item e row = Inr q \<longrightarrow> field q ''price'' = Some VNone)
       \<and> (\<forall>q. index_realtime_item e row = Inr q \<longrightarrow> field q ''price'' = Some VNone)
       \<and> (\<forall>q. futures_realtime_item e row = Inr q \<longrightarrow> field q ''latest_price'' = Some VNone)
       \<and> (\<forall>q. etf_realtime_item e row = Inr q \<longrightarrow> field q ''price'' = Some VNone)
       \<and> (\<forall>q. stock_quote symbol (VDict kvs) = Inr q \<longrightarrow> field q ''price'' = Some (VInt 0))
       \<and> (\<exists>q. index_item (VDict absent) = Inr q \<and> field q ''price'' = Some (VInt 0))
       \<and> (\<exists>q. index_item (VDict present) = Inr q \<and> field q ''price'' = Some v)
       \<and> (\<forall>r records. akshare_do_GET e ''/stock/realtime/all'' = Inr r \<and> body r = VList records
             \<longrightarrow> field (records ! i) ''price'' = Some (VInt 0))
       \<and> (\<forall>records. get_a_stock_realtime e = Inr (success_response e (VList records) ''akshare'')
             \<longrightarrow> field (records ! i) ''price'' = Some VNone)
       \<and> (\<forall>q. akshare_quote_item e nan_row = Inr q \<longrightarrow> field q ''price'' = Some VNaN)
       \<and> (\<forall>q. a_stock_realtime_item e nan_row = Inr q \<longrightarrow> field q ''price'' = Some VNaN)"
proof -
  have items: "(\<forall>q. akshare_quote_item e row = Inr q \<longrightarrow> field q ''price'' = Some (VInt 0))
       \<and> (\<forall>q. akshare_stock_quote e s row = Inr q \<longrightarrow> field q ''price'' = Some (VInt 0))
       \<and> (\<forall>q. a_stock_realtime_item e row = Inr q \<longrightarrow> field q ''price'' = Some VNone)
       \<and> (\<forall>q. index_realtime_item e row = Inr q \<longrightarrow> field q ''price'' = Some VNone)
       \<and> (\<forall>q. futures_realtime_item e row = Inr q \<longrightarrow> field q ''latest_price'' = Some VNone)
       \<and> (\<forall>q. etf_realtime_item e row = Inr q \<longrightarrow> field q ''price'' = Some VNone)"
    using assms(1) akshare_quote_item_falsy akshare_stock_quote_falsy
      a_stock_realtime_item_falsy index_realtime_item_falsy futures_realtime_item_falsy
      etf_realtime_item_falsy
    by blast
  have direct: "\<forall>q. stock_quote symbol (VDict kvs) = Inr q \<longrightarrow> field q ''price'' = Some (VInt 0)"
    using stock_quote_falsy [OF assms(2) assms(3)] by blast
  have idx: "(\<exists>q. index_item (VDict absent) = Inr q \<and> field q ''price'' = Some (VInt 0))
       \<and> (\<exists>q. index_item (VDict present) = Inr q \<and> field q ''price'' = Some v)"
    using assms(4) assms(5) by (simp add: index_item_price)
  have all: "\<forall>r records. akshare_do_GET e ''/stock/realtime/all'' = Inr r \<and> body r = VList records
             \<longrightarrow> field (records ! i) ''price'' = Some (VInt 0)"
  proof (intro allI impI)
    fix r records
    assume h: "akshare_do_GET e ''/stock/realtime/all'' = Inr r \<and> body r = VList records"
    then have "akshare_list e ''stock_zh_a_spot_em'' 100 (akshare_quote_item e) = Inr r"
      by (simp add: akshare_do_GET_def)
    from akshare_list_records [OF assms(6) this _ assms(7) assms(8)] h
    have "akshare_quote_item e (series_iter e (df_head 100 df) (rows df ! i)) = Inr (records ! i)"
      by simp
    then show "field (records ! i) ''price'' = Some (VInt 0)"
      using akshare_quote_item_falsy [OF assms(9)] by simp
  qed
  have cli: "\<forall>records. get_a_stock_realtime e = Inr (success_response e (VList records) ''akshare'')
             \<longrightarrow> field (records ! i) ''price'' = Some VNone"
  proof (intro allI impI)
    fix records
    assume "get_a_stock_realtime e = Inr (success_response e (VList records) ''akshare'')"
    then have "query e (ak e ''stock_zh_a_spot_em'' []) (Some 100) (a_stock_realtime_item e)
        = Inr (success_response e (VList records) ''akshare'')"
      by (simp add: get_a_stock_realtime_def)
    from query_records [OF assms(6) this assms(7) assms(8)]
    show "field (records ! i) ''price'' = Some VNone"
      using a_stock_realtime_item_falsy [OF assms(9)] by simp
  qed
  have nan: "(\<forall>q. akshare_quote_item e nan_row = Inr q \<longrightarrow> field q ''price'' = Some VNaN)
       \<and> (\<forall>q. a_stock_realtime_item e nan_row = Inr q \<longrightarrow> field q ''price'' = Some VNaN)"
    using akshare_quote_item_nan [OF assms(10) assms(11)]
      a_stock_realtime_item_nan [OF assms(10) assms(11)]
    by blast
  show ?thesis
    using items direct idx all cli nan by blast
qed

theorem falsy_price_default_witness:
  "(\<exists>q. akshare_quote_item halted_env (hd (rows halted_frame)) = Inr q
         \<and> field q ''price'' = Some (VInt 0))
   \<and> (\<exists>q. akshare_stock_quote halted_env ''000002'' (hd (rows halted_frame)) = Inr q
         \<and> field q ''price'' = Some (VInt 0))
   \<and> (\<exists>q. a_stock_realtime_item halted_env (hd (rows halted_frame)) = Inr q
         \<and> field q ''price'' = Some VNone)
   \<and> (\<exists>q. index_realtime_item halted_env (hd (rows halted_frame)) = Inr q
         \<and> field q ''price'' = Some VNone)
   \<and> (\<exists>q. futures_realtime_item halted_env (hd (rows halted_frame)) = Inr q
         \<and> field q ''latest_price'' = Some VNone)
   \<and> (\<exists>q. etf_realtime_item halted_env (hd (rows halted_frame)) = Inr q
         \<and> field q ''price'' = Some VNone)
   \<and> (\<exists>q. stock_quote ''000002'' (VDict [(''f58'', VStr ''Halted''), (''f43'', VInt 0)]) = Inr q
         \<and> field q ''price'' = Some (VInt 0))
   \<and> (\<exists>q. index_item (VDict [(''f12'', VStr ''000001'')]) = Inr q
         \<and> field q ''price'' = Some (VInt 0))
   \<and> (\<exists>q. index_item (VDict [(''f12'', VStr ''000001''), (''f2'', VNone)]) = Inr q
         \<and> field q ''price'' = Some VNone)
   \<and> (\<exists>r records. akshare_do_GET halted_env ''/stock/realtime/all'' = Inr r
         \<and> body r = VList records \<and> field (records ! 0) ''price'' = Some (VInt 0))
   \<and> (\<exists>records. get_a_stock_realtime halted_env
           = Inr (success_response halted_env (VList records) ''akshare'')
         \<and> field (records ! 0) ''price'' = Some VNone)
   \<and> (\<exists>q. akshare_quote_item halted_env (rows halted_frame ! 1) = Inr q
         \<and> field q ''price'' = Some VNaN)
   \<and> (\<exists>q. a_stock_realtime_item halted_env (rows halted_frame ! 1) = Inr q
         \<and> field q ''price'' = Some VNaN)"
proof -
  have row: "\<not> truthy (row_get (hd (rows halted_frame)) col_price VNone)"
    by (simp add: halted_frame_def row_get_def)
  have nth: "\<not> truthy (row_get (series_iter halted_env (df_head 100 halted_frame)
      (rows halted_frame ! 0)) col_price VNone)"
    by (simp add: halted_env_def example_env_def halted_frame_def row_get_def)
  have call: "ak halted_env ''stock_zh_a_spot_em'' [] = Inr halted_frame"
    by (simp add: halted_env_def example_env_def)
  have len: "0 < length (rows halted_frame)"
    by (simp add: halted_frame_def)
  have f43: "get (VDict [(''f58'', VStr ''Halted''), (''f43'', VInt 0)]) ''f43'' VNone = Inr (VInt 0)"
    by simp
  have zero: "\<not> truthy (VInt 0)"
    by simp
  have absent: "map_of [(''f12'', VStr ''000001'')] ''f2'' = None"
    by simp
  have present: "map_of [(''f12'', VStr ''000001''), (''f2'', VNone)] ''f2'' = Some VNone"
    by simp
  have bound: "(0::nat) < 100"
    by simp
  have nan_cell: "row_get (rows halted_frame ! 1) col_price VNone = VNaN"
    by (simp add: halted_frame_def row_get_def)
  have nan_float: "py_float halted_env VNaN = Inr VNaN"
    by (simp add: halted_env_def example_env_def)
  note inst = falsy_price_default [where s = "''000002''" and symbol = "''000002''",
      OF row f43 zero absent present call len bound nth nan_cell nan_float]
  have builders:
    "\<exists>q. akshare_quote_item halted_env (hd (rows halted_frame)) = Inr q"
    "\<exists>q. akshare_stock_quote halted_env ''000002'' (hd (rows halted_frame)) = Inr q"
    "\<exists>q. a_stock_realtime_item halted_env (hd (rows halted_frame)) = Inr q"
    "\<exists>q. index_realtime_item halted_env (hd (rows halted_frame)) = Inr q"
    "\<exists>q. futures_realtime_item halted_env (hd (rows halted_frame)) = Inr q"
    "\<exists>q. etf_realtime_item halted_env (hd (rows halted_frame)) = Inr q"
    "\<exists>q. stock_quote ''000002'' (VDict [(''f58'', VStr ''Halted''), (''f43'', VInt 0)]) = Inr q"
    "\<exists>q. akshare_quote_item halted_env (rows halted_frame ! 1) = Inr q"
    "\<exists>q. a_stock_realtime_item halted_env (rows halted_frame ! 1) = Inr q"
    by (simp_all add: akshare_quote_item_def akshare_stock_quote_def a_stock_realtime_item_def
        index_realtime_item_def futures_realtime_item_def etf_realtime_item_def
        stock_quote_def scaled_def float_or_def float_field_def row_get_def
        halted_frame_def halted_env_def example_env_def)
  have answers:
    "\<exists>r records. akshare_do_GET halted_env ''/stock/realtime/all'' = Inr r
        \<and> body r = VList records"
    "\<exists>records. get_a_stock_realtime halted_env
        = Inr (success_response halted_env (VList records) ''akshare'')"
    by (simp_all add: akshare_do_GET_def akshare_list_def get_a_stock_realtime_def query_def
        call df_head_def iterrows_def send_json_def akshare_quote_item_def
        a_stock_realtime_item_def float_or_def float_field_def row_get_def halted_frame_def
        halted_env_def example_env_def success_response_def get_timestamp_def)
  show ?thesis
    using inst builders answers by blast
qed

text \<open>
  The claim as stated fails for the index handlers over the public HTTP interface: a
  price that is present but empty (here the empty string) is passed on as it is, so the
  emitted price is neither \<^verbatim>\<open>null\<close> nor 0.
\<close>

theorem empty_price_counterexample:
  "service_do_GET empty_price_env ''/stock/index/realtime'' =
     Inr \<lparr>status = 200,
          body = VList [VDict [(''symbol'', VStr ''000001''), (''name'', VStr ''SSE''),
                               (''price'', VStr []), (''change'', VFloat 0.5)]],
          fetched = [service_index_url]\<rparr>
   \<and> astock_main empty_price_env [''astock.py'', ''index''] =
     Inr [VList [VDict [(''symbol'', VStr ''000001''), (''name'', VStr ''SSE''),
                        (''price'', VStr []), (''change'', VFloat 0.5)]]]"
  by (simp add: empty_price_env_def example_env_def empty_price_text_def
      service_do_GET_def service_index_def
      service_curl_get_def astock_main_def astock_get_index_def astock_curl_get_def
      index_list_def index_item_def send_json_def)

end
